theory Spec2Isabelle
  imports Complex_Main "HOL-Library.Log_Nat" "HOL-Library.Word"
begin

section \<open>Python numbers\<close>

text \<open>
  \<open>apply_logo\<close> mixes Python integers (image dimensions, margin, pixel coordinates) with
  Python floats (the relative size, the opacity, the relative coordinate 0.5).  An integer
  is an \<open>int\<close>.  A finite float is the rational number it denotes; every float operation
  computes the exact result and rounds it to the nearest IEEE 754 binary64 value, ties to
  even, as CPython does.  The exceptions that the arithmetic and the image library can
  raise inside the \<open>try\<close> block are values of \<open>py_exception\<close>.
\<close>

datatype py_exception = OverflowError | ZeroDivisionError | ValueError | MemoryError

definition round_half_even :: "rat \<Rightarrow> int" where
  "round_half_even q =
     (let f = \<lfloor>q\<rfloor>; r = q - of_int f
      in if r < 1 / 2 then f else if 1 / 2 < r then f + 1 else if even f then f else f + 1)"

text \<open>\<open>ilog2 q\<close> is the binary exponent of a non-zero \<open>q\<close>: \<open>2 powi ilog2 q \<le> \<bar>q\<bar> < 2 powi (ilog2 q + 1)\<close>.\<close>

definition ilog2 :: "rat \<Rightarrow> int" where
  "ilog2 q =
     (let (a, b) = quotient_of \<bar>q\<bar>; e = bitlen a - bitlen b
      in if \<bar>q\<bar> < 2 powi e then e - 1 else e)"

text \<open>
  The nearest binary64 value: 53 significant bits, the exponent of the last place never
  below \<open>-1074\<close> (the subnormal range).
\<close>

definition round_double :: "rat \<Rightarrow> rat" where
  "round_double q =
     (if q = 0 then 0
      else let e = max (ilog2 q - 52) (- 1074)
           in of_int (round_half_even (q / 2 powi e)) * 2 powi e)"

text \<open>
  A result beyond the largest finite double is an infinity.  Every float that
  \<open>apply_logo\<close> computes is passed to \<open>int()\<close>, which raises \<open>OverflowError\<close> on an
  infinity, and the conversion of an integer operand and the true division of integers
  raise it themselves; so overflow is that exception here.
\<close>

definition to_double :: "rat \<Rightarrow> py_exception + rat" where
  "to_double q = (let r = round_double q in if 2 ^ 1024 \<le> \<bar>r\<bar> then Inl OverflowError else Inr r)"

definition float_of_int :: "int \<Rightarrow> py_exception + rat" where
  "float_of_int n = to_double (of_int n)"

text \<open>Python's \<open>n * f\<close> for an integer \<open>n\<close> and a float \<open>f\<close>.\<close>

definition int_mul_float :: "int \<Rightarrow> rat \<Rightarrow> py_exception + rat" where
  "int_mul_float n f = (case float_of_int n of Inl e \<Rightarrow> Inl e | Inr a \<Rightarrow> to_double (a * f))"

text \<open>Python's \<open>a / b\<close> for integers: the correctly rounded quotient.\<close>

definition int_truediv :: "int \<Rightarrow> int \<Rightarrow> py_exception + rat" where
  "int_truediv a b = (if b = 0 then Inl ZeroDivisionError else to_double (of_int a / of_int b))"

text \<open>Python's \<open>int(f)\<close> for a finite float: truncation towards zero.\<close>

definition py_int :: "rat \<Rightarrow> int" where
  "py_int f = (if 0 \<le> f then \<lfloor>f\<rfloor> else \<lceil>f\<rceil>)"

text \<open>The numbers stored in \<open>LOGO_POSITIONS\<close>: the integers 0 and 1 and the float 0.5.\<close>

datatype pynum = PyInt int | PyFloat rat

definition int_mul_num :: "int \<Rightarrow> pynum \<Rightarrow> py_exception + pynum" where
  "int_mul_num n r =
     (case r of
        PyInt k \<Rightarrow> Inr (PyInt (n * k))
      | PyFloat f \<Rightarrow> (case int_mul_float n f of Inl e \<Rightarrow> Inl e | Inr p \<Rightarrow> Inr (PyFloat p)))"

definition int_of_num :: "pynum \<Rightarrow> int" where
  "int_of_num r = (case r of PyInt k \<Rightarrow> k | PyFloat f \<Rightarrow> py_int f)"

definition num_eq_int :: "pynum \<Rightarrow> int \<Rightarrow> bool" where
  "num_eq_int r k = (case r of PyInt j \<Rightarrow> j = k | PyFloat f \<Rightarrow> f = of_int k)"

text \<open>The value of such a number.\<close>

definition num_value :: "pynum \<Rightarrow> rat" where
  "num_value r = (case r of PyInt k \<Rightarrow> of_int k | PyFloat f \<Rightarrow> f)"

section \<open>config.py\<close>

text \<open>The float literals \<open>0.1\<close> and \<open>0.8\<close> denote the doubles nearest to 1/10 and 4/5.\<close>

definition default_logo_size :: rat where
  "default_logo_size = round_double (1 / 10)"

definition default_opacity :: rat where
  "default_opacity = round_double (8 / 10)"

definition default_position :: string where
  "default_position = ''bottom_right''"

definition logo_margin :: int where
  "logo_margin = 20"

definition LOGO_POSITIONS :: "(string \<times> pynum \<times> pynum) list" where
  "LOGO_POSITIONS =
     [(''top_left'', PyInt 0, PyInt 0),
      (''top_center'', PyFloat (1 / 2), PyInt 0),
      (''top_right'', PyInt 1, PyInt 0),
      (''center_left'', PyInt 0, PyFloat (1 / 2)),
      (''center'', PyFloat (1 / 2), PyFloat (1 / 2)),
      (''center_right'', PyInt 1, PyFloat (1 / 2)),
      (''bottom_left'', PyInt 0, PyInt 1),
      (''bottom_center'', PyFloat (1 / 2), PyInt 1),
      (''bottom_right'', PyInt 1, PyInt 1)]"

section \<open>Images and the image library\<close>

text \<open>
  An image object has a size, a mode and pixel data; a pixel is the list of its bands
  (three bytes for RGB, four for RGBA, the alpha band last).  Image objects live in a
  heap and are named by references, because the library both creates objects
  (\<open>copy\<close>, \<open>resize\<close>, \<open>convert\<close>) and changes them in place (\<open>putalpha\<close>, \<open>paste\<close>).
\<close>

type_synonym byte = "8 word"
type_synonym pixel = "byte list"

datatype mode = RGB | RGBA

record image =
  im_size :: "nat \<times> nat"
  im_mode :: mode
  im_data :: "nat \<Rightarrow> nat \<Rightarrow> pixel"

type_synonym ref = nat
type_synonym heap = "image list"

text \<open>
  What the library computes on pixel values is not part of the repository; it is a
  parameter of the model: the resampling filter (the pixel data of the resized image),
  the brightness enhancement of one band value by a factor, and the blend of a
  destination and a source band value under a mask value.  So is the memory that the
  library can obtain: \<open>can_allocate im sz\<close> tells whether resizing the image \<open>im\<close> to the
  size \<open>sz\<close> finds the memory it needs.  The other objects that \<open>apply_logo\<close> creates
  are no larger than one that exists already (the copy of the base image, the converted
  resized logo, its alpha band), and their allocation is taken to succeed.
\<close>

record pil =
  resample :: "image \<Rightarrow> nat \<times> nat \<Rightarrow> nat \<Rightarrow> nat \<Rightarrow> pixel"
  enhance :: "rat \<Rightarrow> byte \<Rightarrow> byte"
  blend :: "byte \<Rightarrow> byte \<Rightarrow> byte \<Rightarrow> byte"
  can_allocate :: "image \<Rightarrow> nat \<times> nat \<Rightarrow> bool"

definition alloc :: "heap \<Rightarrow> image \<Rightarrow> ref \<times> heap" where
  "alloc h im = (length h, h @ [im])"

text \<open>\<open>Image.copy()\<close>: a new object with the same content.\<close>

definition Image_copy :: "heap \<Rightarrow> ref \<Rightarrow> ref \<times> heap" where
  "Image_copy h r = alloc h (h ! r)"

text \<open>
  \<open>Image.resize((w, h), LANCZOS)\<close>: a new object of the requested size and the same mode.
  The library takes the two numbers as C integers, rejects a size below 1 and raises
  \<open>MemoryError\<close> when it cannot allocate what the resizing needs.  Images
  are taken to have positive sides, as every decoded image file has; the library's
  shortcut for a request of the image's own size, which returns a copy, is then one
  more value of the resampling parameter.
\<close>

definition resized_image :: "pil \<Rightarrow> image \<Rightarrow> int \<times> int \<Rightarrow> image" where
  "resized_image L im sz =
     \<lparr>im_size = (nat (fst sz), nat (snd sz)), im_mode = im_mode im,
      im_data = resample L im (nat (fst sz), nat (snd sz))\<rparr>"

definition resize_error :: "pil \<Rightarrow> image \<Rightarrow> int \<times> int \<Rightarrow> py_exception option" where
  "resize_error L im sz =
     (let (w, ht) = sz
      in if 2 ^ 31 \<le> w \<or> 2 ^ 31 \<le> ht \<or> w < - (2 ^ 31) \<or> ht < - (2 ^ 31) then Some OverflowError
         else if w < 1 \<or> ht < 1 then Some ValueError
         else if \<not> can_allocate L im (nat w, nat ht) then Some MemoryError
         else None)"

definition Image_resize :: "pil \<Rightarrow> heap \<Rightarrow> ref \<Rightarrow> int \<times> int \<Rightarrow> py_exception + ref \<times> heap" where
  "Image_resize L h r sz =
     (case resize_error L (h ! r) sz of
        Some e \<Rightarrow> Inl e
      | None \<Rightarrow> Inr (alloc h (resized_image L (h ! r) sz)))"

text \<open>\<open>Image.convert(mode)\<close>: a new object; an RGB pixel gets a fully opaque alpha band.\<close>

definition pixel_to :: "mode \<Rightarrow> mode \<Rightarrow> pixel \<Rightarrow> pixel" where
  "pixel_to src dst p =
     (if src = dst then p else if dst = RGBA then take 3 p @ [255] else take 3 p)"

definition converted_image :: "image \<Rightarrow> mode \<Rightarrow> image" where
  "converted_image im m = im\<lparr>im_mode := m, im_data := (\<lambda>x y. pixel_to (im_mode im) m (im_data im x y))\<rparr>"

definition Image_convert :: "heap \<Rightarrow> ref \<Rightarrow> mode \<Rightarrow> ref \<times> heap" where
  "Image_convert h r m = alloc h (converted_image (h ! r) m)"

text \<open>
  \<open>alpha = im.split()[-1]; alpha = ImageEnhance.Brightness(alpha).enhance(f);
  im.putalpha(alpha)\<close> on an RGBA image: the last band of every pixel is replaced, in
  place, by its enhancement.
\<close>

definition alpha_enhanced :: "pil \<Rightarrow> image \<Rightarrow> rat \<Rightarrow> image" where
  "alpha_enhanced L im f =
     im\<lparr>im_data := (\<lambda>x y. let p = im_data im x y in butlast p @ [enhance L f (last p)])\<rparr>"

definition enhance_alpha :: "pil \<Rightarrow> heap \<Rightarrow> ref \<Rightarrow> rat \<Rightarrow> heap" where
  "enhance_alpha L h r f = h[r := alpha_enhanced L (h ! r) f]"

text \<open>
  \<open>dst.paste(src, (x, y))\<close> and \<open>dst.paste(src, (x, y), src)\<close>: the destination is changed in
  place on the rectangle of the source's size at \<open>(x, y)\<close>, clipped to the destination.
  Without a mask the source pixel, converted to the destination's mode, replaces the
  destination pixel; with the RGBA source as its own mask every destination band is
  blended with the source band under the source's alpha.
\<close>

definition in_box :: "int \<times> int \<Rightarrow> nat \<times> nat \<Rightarrow> nat \<Rightarrow> nat \<Rightarrow> bool" where
  "in_box pos sz i j =
     (fst pos \<le> int i \<and> int i < fst pos + int (fst sz) \<and>
      snd pos \<le> int j \<and> int j < snd pos + int (snd sz))"

definition paste_pixel :: "pil \<Rightarrow> bool \<Rightarrow> mode \<Rightarrow> mode \<Rightarrow> pixel \<Rightarrow> pixel \<Rightarrow> pixel" where
  "paste_pixel L use_mask dm sm d s =
     (if use_mask then map (\<lambda>(a, b). blend L (last s) a b) (zip d s)
      else pixel_to sm dm s)"

definition pasted_image :: "pil \<Rightarrow> image \<Rightarrow> image \<Rightarrow> int \<times> int \<Rightarrow> bool \<Rightarrow> image" where
  "pasted_image L d s pos use_mask =
     d\<lparr>im_data := (\<lambda>i j.
          if in_box pos (im_size s) i j \<and> i < fst (im_size d) \<and> j < snd (im_size d)
          then paste_pixel L use_mask (im_mode d) (im_mode s) (im_data d i j)
                 (im_data s (nat (int i - fst pos)) (nat (int j - snd pos)))
          else im_data d i j)\<rparr>"

definition Image_paste :: "pil \<Rightarrow> heap \<Rightarrow> ref \<Rightarrow> ref \<Rightarrow> int \<times> int \<Rightarrow> bool \<Rightarrow> heap" where
  "Image_paste L h dst src pos use_mask = h[dst := pasted_image L (h ! dst) (h ! src) pos use_mask]"

section \<open>image_processor.py\<close>

record settings =
  position :: string
  logo_size :: rat
  opacity :: rat
  margin :: int

text \<open>
  The keyword arguments of a call: each of the four settings may be given or omitted,
  and so may \<open>custom_position\<close>, a pair of pixel coordinates.
\<close>

record kwargs =
  kw_position :: "string option"
  kw_size :: "rat option"
  kw_opacity :: "rat option"
  kw_margin :: "int option"
  kw_custom_position :: "(int \<times> int) option"

record image_processor =
  current_logo :: "ref option"
  default_settings :: settings

text \<open>\<open>ImageProcessor.__init__\<close>\<close>

definition init :: image_processor where
  "init = \<lparr>current_logo = None,
           default_settings = \<lparr>position = default_position, logo_size = default_logo_size,
                                opacity = default_opacity, margin = logo_margin\<rparr>\<rparr>"

text \<open>\<open>settings = self.default_settings.copy(); settings.update(kwargs)\<close>\<close>

definition update_settings :: "settings \<Rightarrow> kwargs \<Rightarrow> settings" where
  "update_settings d kw =
     \<lparr>position = (case kw_position kw of None \<Rightarrow> position d | Some v \<Rightarrow> v),
      logo_size = (case kw_size kw of None \<Rightarrow> logo_size d | Some v \<Rightarrow> v),
      opacity = (case kw_opacity kw of None \<Rightarrow> opacity d | Some v \<Rightarrow> v),
      margin = (case kw_margin kw of None \<Rightarrow> margin d | Some v \<Rightarrow> v)\<rparr>"

text \<open>
  The size of the resized logo:
  \<open>logo_width = int(img_width * logo_size)\<close>,
  \<open>logo_height = int(self.current_logo.size[1] * (logo_width / self.current_logo.size[0]))\<close>.
\<close>

definition logo_dims :: "nat \<Rightarrow> nat \<times> nat \<Rightarrow> rat \<Rightarrow> py_exception + int \<times> int" where
  "logo_dims img_width logo_sz size_frac =
     (case int_mul_float (int img_width) size_frac of
        Inl e \<Rightarrow> Inl e
      | Inr p \<Rightarrow>
          let logo_width = py_int p
          in (case int_truediv logo_width (int (fst logo_sz)) of
                Inl e \<Rightarrow> Inl e
              | Inr q \<Rightarrow>
                  (case int_mul_float (int (snd logo_sz)) q of
                     Inl e \<Rightarrow> Inl e
                   | Inr ph \<Rightarrow> Inr (logo_width, py_int ph))))"

text \<open>
  The opacity step: below 1.0 the resized logo is converted to RGBA unless it is RGBA
  already, and its alpha band is enhanced by the opacity; otherwise it is left as it is.
\<close>

definition apply_opacity :: "pil \<Rightarrow> heap \<Rightarrow> ref \<Rightarrow> rat \<Rightarrow> ref \<times> heap" where
  "apply_opacity L h resized op =
     (if op < 1 then
        let (resized_logo, h1) =
              (if im_mode (h ! resized) \<noteq> RGBA then Image_convert h resized RGBA else (resized, h))
        in (resized_logo, enhance_alpha L h1 resized_logo op)
      else (resized, h))"

text \<open>One coordinate of the anchor placement, before clamping.\<close>

definition anchor_coord :: "int \<Rightarrow> int \<Rightarrow> pynum \<Rightarrow> int \<Rightarrow> py_exception + int" where
  "anchor_coord img_dim logo_dim rel m =
     (case int_mul_num (img_dim - logo_dim) rel of
        Inl e \<Rightarrow> Inl e
      | Inr p \<Rightarrow>
          let c = int_of_num p
          in Inr (if num_eq_int rel 0 then c + m else if num_eq_int rel 1 then c - m else c))"

text \<open>The placement before clamping: the custom position if one is given, else the anchor.\<close>

definition placement ::
  "(int \<times> int) option \<Rightarrow> string \<Rightarrow> int \<Rightarrow> nat \<times> nat \<Rightarrow> int \<times> int \<Rightarrow> py_exception + int \<times> int" where
  "placement custom pos m img_sz logo_sz =
     (case custom of
        Some xy \<Rightarrow> Inr xy
      | None \<Rightarrow>
          let (rel_x, rel_y) =
                (case map_of LOGO_POSITIONS pos of
                   Some r \<Rightarrow> r
                 | None \<Rightarrow> the (map_of LOGO_POSITIONS ''bottom_right''))
          in (case anchor_coord (int (fst img_sz)) (fst logo_sz) rel_x m of
                Inl e \<Rightarrow> Inl e
              | Inr x \<Rightarrow>
                  (case anchor_coord (int (snd img_sz)) (snd logo_sz) rel_y m of
                     Inl e \<Rightarrow> Inl e
                   | Inr y \<Rightarrow> Inr (x, y))))"

text \<open>\<open>x = max(0, min(x, img_width - logo_width))\<close>, and the same for \<open>y\<close>.\<close>

definition clamp_position :: "int \<times> int \<Rightarrow> nat \<times> nat \<Rightarrow> int \<times> int \<Rightarrow> int \<times> int" where
  "clamp_position xy img_sz logo_sz =
     (max 0 (min (fst xy) (int (fst img_sz) - fst logo_sz)),
      max 0 (min (snd xy) (int (snd img_sz) - snd logo_sz)))"

text \<open>
  The two ways \<open>apply_logo\<close> returns \<open>None\<close>: the logo is missing (logged as such before
  anything is done), or an exception was caught by the \<open>try\<close> block.
\<close>

datatype failure = LogoNotLoaded | ApplyFailed py_exception

text \<open>
  On success \<open>apply_logo\<close> returns the result image and logs the final position
  \<open>(x, y)\<close> and the size \<open>logo_width x logo_height\<close> of the pasted logo.
\<close>

record applied =
  result_image :: ref
  logged_position :: "int \<times> int"
  logged_size :: "int \<times> int"

definition apply_logo ::
  "pil \<Rightarrow> image_processor \<Rightarrow> heap \<Rightarrow> ref \<Rightarrow> kwargs \<Rightarrow> (failure + applied) \<times> heap" where
  "apply_logo L self h img kw =
     (case current_logo self of
        None \<Rightarrow> (Inl LogoNotLoaded, h)
      | Some logo \<Rightarrow>
          let st = update_settings (default_settings self) kw;
              (result, h1) = Image_copy h img;
              img_sz = im_size (h1 ! result)
          in (case logo_dims (fst img_sz) (im_size (h1 ! logo)) (logo_size st) of
                Inl e \<Rightarrow> (Inl (ApplyFailed e), h1)
              | Inr dims \<Rightarrow>
                  (case Image_resize L h1 logo dims of
                     Inl e \<Rightarrow> (Inl (ApplyFailed e), h1)
                   | Inr (resized, h2) \<Rightarrow>
                       let (resized_logo, h3) = apply_opacity L h2 resized (opacity st)
                       in (case placement (kw_custom_position kw) (position st) (margin st) img_sz dims of
                             Inl e \<Rightarrow> (Inl (ApplyFailed e), h3)
                           | Inr xy \<Rightarrow>
                               let pos = clamp_position xy img_sz dims
                               in (Inr \<lparr>result_image = result, logged_position = pos,
                                        logged_size = dims\<rparr>,
                                   Image_paste L h3 result resized_logo pos
                                     (im_mode (h3 ! resized_logo) = RGBA))))))"

section \<open>The result without the heap\<close>

text \<open>
  Two abbreviations for stating what \<open>apply_logo\<close> leaves in the heap: the logo that
  the opacity step hands to \<open>paste\<close>, as an image, and the image that \<open>paste\<close> leaves in
  the result object.
\<close>

definition opacity_logo :: "pil \<Rightarrow> image \<Rightarrow> rat \<Rightarrow> image" where
  "opacity_logo L im op =
     (if op < 1
      then alpha_enhanced L (if im_mode im \<noteq> RGBA then converted_image im RGBA else im) op
      else im)"

definition composited :: "pil \<Rightarrow> image \<Rightarrow> image \<Rightarrow> rat \<Rightarrow> int \<times> int \<Rightarrow> int \<times> int \<Rightarrow> image" where
  "composited L base logo op pos dims =
     (let lg = opacity_logo L (resized_image L logo dims) op
      in pasted_image L base lg pos (im_mode lg = RGBA))"

section \<open>A concrete library and concrete images\<close>

text \<open>
  An instance of the library parameters (nearest-neighbour resampling, a truncating
  enhancement, an integer blend, memory for images of up to \<open>2^28\<close> pixels) and a small heap: a 100 x 80 RGB base image at
  reference 0 and a 4 x 2 RGB logo at reference 1.  They serve to run the model.
\<close>

definition example_pil :: pil where
  "example_pil =
     \<lparr>resample = (\<lambda>im sz x y. im_data im (x * fst (im_size im) div fst sz)
                                         (y * snd (im_size im) div snd sz)),
      enhance = (\<lambda>f a. word_of_int (py_int (of_int (uint a) * f))),
      blend = (\<lambda>m d s. word_of_nat ((unat d * (255 - unat m) + unat s * unat m) div 255)),
      can_allocate = (\<lambda>im sz. fst sz * snd sz \<le> 2 ^ 28)\<rparr>"

definition example_base :: image where
  "example_base = \<lparr>im_size = (100, 80), im_mode = RGB,
                    im_data = (\<lambda>x y. [word_of_nat x, word_of_nat y, 7])\<rparr>"

definition example_logo :: image where
  "example_logo = \<lparr>im_size = (4, 2), im_mode = RGB, im_data = (\<lambda>x y. [200, 201, 202])\<rparr>"

definition example_heap :: heap where
  "example_heap = [example_base, example_logo]"

definition example_processor :: image_processor where
  "example_processor = init\<lparr>current_logo := Some 1\<rparr>"

definition no_kwargs :: kwargs where
  "no_kwargs = \<lparr>kw_position = None, kw_size = None, kw_opacity = None, kw_margin = None,
                 kw_custom_position = None\<rparr>"

text \<open>
  Four calls: a relative size of 1.2, an opacity of 1.0, a relative size of 6000000.0,
  and a custom position near the bottom right corner.
\<close>

definition large_kwargs :: kwargs where
  "large_kwargs = no_kwargs\<lparr>kw_size := Some (round_double (12 / 10))\<rparr>"

definition opaque_kwargs :: kwargs where
  "opaque_kwargs = no_kwargs\<lparr>kw_opacity := Some 1\<rparr>"

definition huge_kwargs :: kwargs where
  "huge_kwargs = no_kwargs\<lparr>kw_size := Some 6000000\<rparr>"

definition custom_kwargs :: kwargs where
  "custom_kwargs = no_kwargs\<lparr>kw_custom_position := Some (95, 78)\<rparr>"

section \<open>Rounding to a double\<close>

text \<open>
  The binary exponent is computed correctly, integers and their halves below \<open>2^53\<close> are
  exact, rounding keeps the sign, and in the normal range the relative error is at most
  \<open>2^-53\<close>.
\<close>

lemma bitlen_powi_bounds:
  assumes "0 < a"
  shows "(2::rat) powi (bitlen a - 1) \<le> of_int a" and "of_int a < (2::rat) powi bitlen a"
proof -
  from assms have ge: "1 \<le> bitlen a"
    using bitlen_eq_zero_iff[of a] bitlen_nonneg[of a] by linarith
  from bitlen_bounds[OF assms] have l: "2 ^ nat (bitlen a - 1) \<le> a" and u: "a < 2 ^ nat (bitlen a)"
    by simp_all
  have "(2::rat) powi (bitlen a - 1) = 2 ^ nat (bitlen a - 1)"
    using ge by (simp add: power_int_def)
  also have "\<dots> = of_int (2 ^ nat (bitlen a - 1))" by simp
  also have "\<dots> \<le> of_int a" using l by (simp only: of_int_le_iff)
  finally show "(2::rat) powi (bitlen a - 1) \<le> of_int a" .
  have "(of_int a :: rat) < of_int (2 ^ nat (bitlen a))" using u by (simp only: of_int_less_iff)
  also have "\<dots> = 2 powi bitlen a" using ge by (simp add: power_int_def)
  finally show "of_int a < (2::rat) powi bitlen a" .
qed

lemma ilog2_bounds:
  assumes "q \<noteq> 0"
  shows "2 powi ilog2 q \<le> \<bar>q\<bar>" and "\<bar>q\<bar> < 2 powi (ilog2 q + 1)"
proof -
  obtain a b where ab: "quotient_of \<bar>q\<bar> = (a, b)" by (cases "quotient_of \<bar>q\<bar>")
  then have b: "0 < b" and q: "\<bar>q\<bar> = of_int a / of_int b"
    by (simp_all add: quotient_of_denom_pos quotient_of_div)
  from assms have "0 < \<bar>q\<bar>" by simp
  with q b have a: "0 < a" by (simp add: zero_less_divide_iff)
  define e where "e = bitlen a - bitlen b"
  have il: "ilog2 q = (if \<bar>q\<bar> < 2 powi e then e - 1 else e)"
    by (simp add: ilog2_def ab e_def)
  have bpos: "(0::rat) < of_int b" using b by simp
  have lo: "2 powi (e - 1) \<le> \<bar>q\<bar>"
  proof -
    have "e - 1 = (bitlen a - 1) - bitlen b" by (simp add: e_def)
    then have "(2::rat) powi (e - 1) = 2 powi ((bitlen a - 1) - bitlen b)" by (rule arg_cong)
    also have "\<dots> = 2 powi (bitlen a - 1) / 2 powi bitlen b"
      by (rule power_int_diff) simp
    also have "\<dots> \<le> of_int a / 2 powi bitlen b"
      using bitlen_powi_bounds(1)[OF a] by (simp add: divide_right_mono)
    also have "\<dots> \<le> of_int a / of_int b"
      using bitlen_powi_bounds(2)[OF b] a bpos by (intro divide_left_mono) simp_all
    finally show ?thesis by (simp add: q)
  qed
  have hi: "\<bar>q\<bar> < 2 powi (e + 1)"
  proof -
    have "\<bar>q\<bar> = of_int a / of_int b" by (rule q)
    also have "\<dots> < 2 powi bitlen a / of_int b"
      using bitlen_powi_bounds(2)[OF a] bpos by (simp add: divide_strict_right_mono)
    also have "\<dots> \<le> 2 powi bitlen a / 2 powi (bitlen b - 1)"
      using bitlen_powi_bounds(1)[OF b] bpos by (intro divide_left_mono) (simp_all add: mult_pos_pos)
    also have "\<dots> = 2 powi (e + 1)"
    proof -
      have "e + 1 = bitlen a - (bitlen b - 1)" by (simp add: e_def)
      then have "(2::rat) powi (e + 1) = 2 powi (bitlen a - (bitlen b - 1))" by (rule arg_cong)
      also have "\<dots> = 2 powi bitlen a / 2 powi (bitlen b - 1)"
        by (rule power_int_diff) simp
      finally show ?thesis by simp
    qed
    finally show ?thesis .
  qed
  show "2 powi ilog2 q \<le> \<bar>q\<bar>" using lo by (auto simp: il)
  show "\<bar>q\<bar> < 2 powi (ilog2 q + 1)" using hi by (auto simp: il)
qed

lemma round_half_even_of_int: "round_half_even (of_int n) = n"
  by (simp add: round_half_even_def)

lemma round_half_even_error: "\<bar>of_int (round_half_even q) - q\<bar> \<le> 1 / 2"
proof -
  define f where "f = \<lfloor>q\<rfloor>"
  define r where "r = q - of_int f"
  have r: "0 \<le> r" "r < 1" unfolding r_def f_def by linarith+
  have q: "q = of_int f + r" by (simp add: r_def)
  have rhe: "round_half_even q = (if r < 1 / 2 then f else if 1 / 2 < r then f + 1 else if even f then f else f + 1)"
    by (simp add: round_half_even_def Let_def f_def r_def)
  have "of_int (round_half_even q) - q =
        of_int (if r < 1 / 2 then f else if 1 / 2 < r then f + 1 else if even f then f else f + 1) - (of_int f + r)"
    using rhe q by simp
  then show ?thesis
    using r by (auto simp: abs_if split: if_splits)
qed

lemma round_half_even_sign:
  "0 \<le> q \<Longrightarrow> 0 \<le> round_half_even q" "q \<le> 0 \<Longrightarrow> round_half_even q \<le> 0"
proof -
  have fl: "of_int \<lfloor>q\<rfloor> \<le> q" "q < of_int \<lfloor>q\<rfloor> + 1" by linarith+
  show "0 \<le> q \<Longrightarrow> 0 \<le> round_half_even q"
    by (auto simp: round_half_even_def Let_def intro: add_nonneg_nonneg)
  assume q: "q \<le> 0"
  show "round_half_even q \<le> 0"
  proof (cases "q = of_int \<lfloor>q\<rfloor>")
    case True
    then have "round_half_even q = \<lfloor>q\<rfloor>" by (simp add: round_half_even_def)
    with q show ?thesis by (simp add: floor_le_zero)
  next
    case False
    with fl q have "of_int \<lfloor>q\<rfloor> < (0::rat)" by linarith
    then have "\<lfloor>q\<rfloor> < 0" by simp
    then have "\<lfloor>q\<rfloor> + 1 \<le> 0" by linarith
    then show ?thesis using \<open>\<lfloor>q\<rfloor> < 0\<close> by (simp add: round_half_even_def Let_def del: floor_less_zero)
  qed
qed

lemma ilog2_less:
  assumes "q \<noteq> 0" "\<bar>q\<bar> < 2 powi k"
  shows "ilog2 q < k"
proof (rule ccontr)
  assume "\<not> ilog2 q < k"
  then have "(2::rat) powi k \<le> 2 powi ilog2 q"
    by (intro power_int_increasing) simp_all
  with ilog2_bounds(1)[OF assms(1)] assms(2) show False by linarith
qed

lemma ilog2_ge:
  assumes "q \<noteq> 0" "2 powi k \<le> \<bar>q\<bar>"
  shows "k \<le> ilog2 q"
proof (rule ccontr)
  assume "\<not> k \<le> ilog2 q"
  then have "(2::rat) powi (ilog2 q + 1) \<le> 2 powi k"
    by (intro power_int_increasing) simp_all
  with ilog2_bounds(2)[OF assms(1)] assms(2) show False by linarith
qed

lemma round_double_exact:
  assumes "\<bar>m\<bar> < 2 ^ 53" "- 1074 \<le> k"
  shows "round_double (of_int m * 2 powi k) = of_int m * 2 powi k"
proof (cases "m = 0")
  case True
  then show ?thesis by (simp add: round_double_def)
next
  case False
  define q :: rat where "q = of_int m * 2 powi k"
  have q0: "q \<noteq> 0" using False by (simp add: q_def)
  have "\<bar>q\<bar> = of_int \<bar>m\<bar> * 2 powi k" by (simp add: q_def abs_mult)
  also have "\<dots> < of_int (2 ^ 53) * 2 powi k"
    using assms(1) by (intro mult_strict_right_mono) (simp_all only: of_int_less_iff zero_less_power_int zero_less_numeral)
  also have "\<dots> = 2 powi (53 + k)"
    by (simp add: power_int_add)
  finally have "ilog2 q < 53 + k" by (rule ilog2_less[OF q0])
  define e where "e = max (ilog2 q - 52) (- 1074)"
  have ek: "e \<le> k" using \<open>ilog2 q < 53 + k\<close> assms(2) by (simp add: e_def)
  have "q / 2 powi e = of_int m * 2 powi (k - e)"
    by (simp add: q_def power_int_diff)
  also have "\<dots> = of_int (m * 2 ^ nat (k - e))"
    using ek by (simp add: power_int_def)
  finally have "round_half_even (q / 2 powi e) = m * 2 ^ nat (k - e)"
    by (simp only: round_half_even_of_int)
  then have "of_int (round_half_even (q / 2 powi e)) * 2 powi e = of_int m * 2 powi (k - e) * 2 powi e"
    using ek by (simp add: power_int_def)
  also have "\<dots> = q"
    by (simp add: q_def power_int_diff)
  finally show ?thesis
    using q0 by (simp add: round_double_def e_def Let_def flip: q_def)
qed

lemma round_double_of_int: "\<bar>n\<bar> < 2 ^ 53 \<Longrightarrow> round_double (of_int n) = of_int n"
  using round_double_exact[of n 0] by simp

lemma round_double_half: "\<bar>n\<bar> < 2 ^ 53 \<Longrightarrow> round_double (of_int n * (1 / 2)) = of_int n * (1 / 2)"
  using round_double_exact[of n "- 1"] by simp

lemma round_double_sign:
  "0 \<le> q \<Longrightarrow> 0 \<le> round_double q" "q \<le> 0 \<Longrightarrow> round_double q \<le> 0"
  by (auto simp: round_double_def Let_def zero_le_mult_iff mult_le_0_iff zero_le_divide_iff
      divide_le_0_iff intro!: round_half_even_sign)

lemma round_double_error:
  assumes "2 powi (- 1022) \<le> \<bar>q\<bar>"
  shows "\<bar>round_double q - q\<bar> \<le> \<bar>q\<bar> / 2 ^ 53"
proof -
  have q0: "q \<noteq> 0" using assms by auto
  have "- 1022 \<le> ilog2 q" by (rule ilog2_ge[OF q0 assms])
  define e where "e = ilog2 q - 52"
  have e: "max (ilog2 q - 52) (- 1074) = e" using \<open>- 1022 \<le> ilog2 q\<close> by (simp add: e_def)
  have rd: "round_double q = of_int (round_half_even (q / 2 powi e)) * 2 powi e"
    using q0 by (simp add: round_double_def e Let_def)
  have pe: "(0::rat) < 2 powi e" by simp
  have "round_double q - q = (of_int (round_half_even (q / 2 powi e)) - q / 2 powi e) * 2 powi e"
    by (simp add: rd algebra_simps)
  then have "\<bar>round_double q - q\<bar> = \<bar>of_int (round_half_even (q / 2 powi e)) - q / 2 powi e\<bar> * 2 powi e"
    by (simp add: abs_mult)
  also have "\<dots> \<le> 1 / 2 * 2 powi e"
    by (intro mult_right_mono round_half_even_error) simp
  also have "\<dots> = 2 powi ilog2 q / 2 ^ 53"
  proof -
    have "(2::rat) powi e = 2 powi ilog2 q / 2 powi 52"
      unfolding e_def by (rule power_int_diff) simp
    then show ?thesis by simp
  qed
  also have "\<dots> \<le> \<bar>q\<bar> / 2 ^ 53"
    using ilog2_bounds(1)[OF q0] by (simp add: divide_right_mono)
  finally show ?thesis .
qed

section \<open>The heap after \<open>apply_logo\<close>\<close>

text \<open>
  With valid references, \<open>apply_logo\<close> is unfolded once and for all: what a successful
  call returns and leaves in the heap, that no object that existed before is changed, and
  that the outcome depends on the heap only through the base image and the logo.
\<close>

lemma apply_opacity_spec:
  assumes "resized < length h"
  shows "snd (apply_opacity L h resized op) ! fst (apply_opacity L h resized op) = opacity_logo L (h ! resized) op"
    and "resized \<le> fst (apply_opacity L h resized op)"
    and "fst (apply_opacity L h resized op) < length (snd (apply_opacity L h resized op))"
    and "length h \<le> length (snd (apply_opacity L h resized op))"
    and "\<forall>r<resized. snd (apply_opacity L h resized op) ! r = h ! r"
  using assms
  by (auto simp: apply_opacity_def opacity_logo_def Image_convert_def alloc_def enhance_alpha_def
      nth_append Let_def)

lemma apply_logo_unfold:
  assumes "current_logo self = Some logo" "logo < length h" "img < length h"
  shows "apply_logo L self h img kw =
     (let st = update_settings (default_settings self) kw; h1 = h @ [h ! img]
      in case logo_dims (fst (im_size (h ! img))) (im_size (h ! logo)) (logo_size st) of
           Inl e \<Rightarrow> (Inl (ApplyFailed e), h1)
         | Inr dims \<Rightarrow>
            (case resize_error L (h ! logo) dims of
               Some e \<Rightarrow> (Inl (ApplyFailed e), h1)
             | None \<Rightarrow>
                 let h2 = h1 @ [resized_image L (h ! logo) dims];
                     rl = fst (apply_opacity L h2 (Suc (length h)) (opacity st));
                     h3 = snd (apply_opacity L h2 (Suc (length h)) (opacity st))
                 in (case placement (kw_custom_position kw) (position st) (margin st) (im_size (h ! img)) dims of
                       Inl e \<Rightarrow> (Inl (ApplyFailed e), h3)
                     | Inr xy \<Rightarrow>
                         (Inr \<lparr>result_image = length h,
                               logged_position = clamp_position xy (im_size (h ! img)) dims,
                               logged_size = dims\<rparr>,
                          Image_paste L h3 (length h) rl (clamp_position xy (im_size (h ! img)) dims)
                            (im_mode (h3 ! rl) = RGBA)))))"
  using assms
  by (simp add: apply_logo_def Image_copy_def alloc_def Image_resize_def nth_append Let_def
      split: sum.splits option.splits prod.splits)

lemma apply_logo_success:
  assumes "current_logo self = Some logo" "logo < length h" "img < length h"
    and "fst (apply_logo L self h img kw) = Inr a"
  defines "st \<equiv> update_settings (default_settings self) kw"
  shows "result_image a = length h"
    and "logo_dims (fst (im_size (h ! img))) (im_size (h ! logo)) (logo_size st) = Inr (logged_size a)"
    and "resize_error L (h ! logo) (logged_size a) = None"
    and "\<exists>xy. placement (kw_custom_position kw) (position st) (margin st) (im_size (h ! img)) (logged_size a) = Inr xy
           \<and> logged_position a = clamp_position xy (im_size (h ! img)) (logged_size a)"
    and "snd (apply_logo L self h img kw) ! length h =
           composited L (h ! img) (h ! logo) (opacity st) (logged_position a) (logged_size a)"
    and "\<forall>r<length h. snd (apply_logo L self h img kw) ! r = h ! r"
    and "length h < length (snd (apply_logo L self h img kw))"
proof -
  let ?dims = "logo_dims (fst (im_size (h ! img))) (im_size (h ! logo)) (logo_size st)"
  note U = apply_logo_unfold[OF assms(1-3), of L kw, folded st_def]
  from assms(4) obtain dims where d: "?dims = Inr dims"
    unfolding U by (cases ?dims) (simp_all add: Let_def)
  from assms(4) have re: "resize_error L (h ! logo) dims = None"
    unfolding U by (cases "resize_error L (h ! logo) dims") (simp_all add: Let_def d)
  let ?pl = "placement (kw_custom_position kw) (position st) (margin st) (im_size (h ! img)) dims"
  from assms(4) obtain xy where p: "?pl = Inr xy"
    unfolding U by (cases ?pl) (simp_all add: Let_def d re)
  let ?h2 = "h @ [h ! img, resized_image L (h ! logo) dims]"
  let ?ao = "apply_opacity L ?h2 (Suc (length h)) (opacity st)"
  have a: "a = \<lparr>result_image = length h, logged_position = clamp_position xy (im_size (h ! img)) dims,
                 logged_size = dims\<rparr>"
    using assms(4) unfolding U by (simp add: Let_def d re p)
  have s: "snd (apply_logo L self h img kw) =
           Image_paste L (snd ?ao) (length h) (fst ?ao) (clamp_position xy (im_size (h ! img)) dims)
             (im_mode (snd ?ao ! fst ?ao) = RGBA)"
    unfolding U by (simp add: Let_def d re p)
  have lt: "Suc (length h) < length ?h2" by simp
  note O = apply_opacity_spec[OF lt, of L "opacity st"]
  have lg: "snd ?ao ! fst ?ao = opacity_logo L (resized_image L (h ! logo) dims) (opacity st)"
    using O(1) by (simp add: nth_append)
  have base: "snd ?ao ! length h = h ! img"
    using O(5) by (simp add: nth_append)
  have len: "length h < length (snd ?ao)"
    using O(4) by simp
  show "result_image a = length h" by (simp add: a)
  show "?dims = Inr (logged_size a)" by (simp add: a d)
  show "resize_error L (h ! logo) (logged_size a) = None" by (simp add: a re)
  show "\<exists>xy. placement (kw_custom_position kw) (position st) (margin st) (im_size (h ! img)) (logged_size a) = Inr xy
           \<and> logged_position a = clamp_position xy (im_size (h ! img)) (logged_size a)"
    by (simp add: a p)
  show "snd (apply_logo L self h img kw) ! length h =
           composited L (h ! img) (h ! logo) (opacity st) (logged_position a) (logged_size a)"
    using len by (simp add: s Image_paste_def composited_def Let_def lg base a)
  show "\<forall>r<length h. snd (apply_logo L self h img kw) ! r = h ! r"
    using O(5) by (auto simp: s Image_paste_def nth_append)
  show "length h < length (snd (apply_logo L self h img kw))"
    using len by (simp add: s Image_paste_def)
qed

lemma apply_logo_frame:
  assumes "current_logo self = Some logo" "logo < length h" "img < length h"
  shows "length h \<le> length (snd (apply_logo L self h img kw))"
    and "\<forall>r<length h. snd (apply_logo L self h img kw) ! r = h ! r"
proof -
  let ?st = "update_settings (default_settings self) kw"
  let ?dims = "logo_dims (fst (im_size (h ! img))) (im_size (h ! logo)) (logo_size ?st)"
  note U = apply_logo_unfold[OF assms, of L kw]
  have "length h \<le> length (snd (apply_logo L self h img kw)) \<and>
        (\<forall>r<length h. snd (apply_logo L self h img kw) ! r = h ! r)"
  proof (cases ?dims)
    case (Inl e)
    then show ?thesis unfolding U by (simp add: Let_def nth_append)
  next
    case (Inr dims)
    show ?thesis
    proof (cases "resize_error L (h ! logo) dims")
      case (Some e)
      then show ?thesis unfolding U by (simp add: Let_def Inr nth_append)
    next
      case None
      let ?h2 = "h @ [h ! img, resized_image L (h ! logo) dims]"
      let ?ao = "apply_opacity L ?h2 (Suc (length h)) (opacity ?st)"
      have lt: "Suc (length h) < length ?h2" by simp
      note O = apply_opacity_spec[OF lt, of L "opacity ?st"]
      have len: "length h \<le> length (snd ?ao)" using O(4) by simp
      have old: "\<forall>r<length h. snd ?ao ! r = h ! r" using O(5) by (simp add: nth_append)
      show ?thesis
      proof (cases "placement (kw_custom_position kw) (position ?st) (margin ?st) (im_size (h ! img)) dims")
        case (Inl e)
        then show ?thesis unfolding U using len old by (simp add: Let_def Inr None)
      next
        case (Inr xy)
        then show ?thesis unfolding U using len old
          by (simp add: Let_def \<open>?dims = Inr dims\<close> None Image_paste_def)
      qed
    qed
  qed
  then show "length h \<le> length (snd (apply_logo L self h img kw))"
    and "\<forall>r<length h. snd (apply_logo L self h img kw) ! r = h ! r"
    by simp_all
qed

lemma apply_logo_fst_heap:
  assumes "current_logo self = Some logo" "logo < length h" "img < length h"
    and "logo < length g" "img < length g" "g ! img = h ! img" "g ! logo = h ! logo"
  shows "fst (apply_logo L self g img kw) =
         map_sum id (\<lambda>a. a\<lparr>result_image := length g\<rparr>) (fst (apply_logo L self h img kw))"
  unfolding apply_logo_unfold[OF assms(1-3)] apply_logo_unfold[OF assms(1,4,5)] assms(6,7)
  by (simp add: Let_def split: sum.split option.split)

lemma apply_logo_cong_settings:
  assumes "update_settings (default_settings self) kw = update_settings (default_settings self) kw'"
    and "kw_custom_position kw = kw_custom_position kw'"
  shows "apply_logo L self h img kw = apply_logo L self h img kw'"
  unfolding apply_logo_def assms ..

lemma opacity_logo_size: "im_size (opacity_logo L im op) = im_size im"
  by (simp add: opacity_logo_def alpha_enhanced_def converted_image_def)

lemma apply_opacity_no_enhance:
  "\<not> op < 1 \<Longrightarrow> apply_opacity (L\<lparr>enhance := e\<rparr>) h r op = apply_opacity L h r op"
  by (simp add: apply_opacity_def)

lemma enhance_irrelevant_pure:
  "resized_image (L\<lparr>enhance := e\<rparr>) = resized_image L"
  "paste_pixel (L\<lparr>enhance := e\<rparr>) = paste_pixel L"
  "resize_error (L\<lparr>enhance := e\<rparr>) = resize_error L"
  by (intro ext, simp add: resized_image_def paste_pixel_def resize_error_def split: prod.split)+

lemma enhance_irrelevant:
  "Image_resize (L\<lparr>enhance := e\<rparr>) h r sz = Image_resize L h r sz"
  "Image_paste (L\<lparr>enhance := e\<rparr>) h d s pos m = Image_paste L h d s pos m"
  unfolding Image_resize_def Image_paste_def pasted_image_def enhance_irrelevant_pure
  by (rule refl)+

lemma apply_logo_ignores_enhance:
  assumes "\<not> opacity (update_settings (default_settings self) kw) < 1"
  shows "apply_logo (L\<lparr>enhance := e\<rparr>) self h img kw = apply_logo L self h img kw"
  unfolding apply_logo_def Let_def enhance_irrelevant apply_opacity_no_enhance[OF assms] ..

section \<open>Evaluation, and the arithmetic of sizes and positions\<close>

text \<open>
  Rules to evaluate the float operations on concrete numbers, the values of the anchor
  placement, the distance of the computed height from the exact one, and the outcomes of
  the calls on the concrete images.
\<close>

lemma to_doubleI: "round_double q = r \<Longrightarrow> \<bar>r\<bar> < 2 ^ 1024 \<Longrightarrow> to_double q = Inr r"
  by (simp add: to_double_def Let_def)

lemma float_of_int_exact: "\<bar>n\<bar> < 2 ^ 53 \<Longrightarrow> float_of_int n = Inr (of_int n)"
proof -
  assume n: "\<bar>n\<bar> < 2 ^ 53"
  then have "\<bar>n\<bar> < 2 ^ 1024" by (rule less_trans) simp
  then have "\<bar>of_int n :: rat\<bar> < of_int (2 ^ 1024)"
    unfolding of_int_abs[symmetric] by (simp only: of_int_less_iff)
  then show ?thesis
    unfolding float_of_int_def using n by (intro to_doubleI round_double_of_int) simp_all
qed

lemma logo_dimsI:
  assumes "int W < 2 ^ 53" "int h0 < 2 ^ 53" "w0 \<noteq> 0"
    and "round_double (of_int (int W) * s) = p" "\<bar>p\<bar> < 2 ^ 1024"
    and "round_double (of_int (py_int p) / of_int (int w0)) = q" "\<bar>q\<bar> < 2 ^ 1024"
    and "round_double (of_int (int h0) * q) = ph" "\<bar>ph\<bar> < 2 ^ 1024"
  shows "logo_dims W (w0, h0) s = Inr (py_int p, py_int ph)"
  using assms
  by (simp add: logo_dims_def int_mul_float_def float_of_int_exact int_truediv_def to_doubleI Let_def)

lemma example_dims_default: "logo_dims 100 (4, 2) default_logo_size = Inr (10, 5)"
proof -
  have 1: "round_double (of_int (int 100) * default_logo_size) = 10" by code_simp
  have 2: "round_double (of_int (py_int 10) / of_int (int 4)) = 5 / 2" by code_simp
  have 3: "round_double (of_int (int 2) * (5 / 2)) = 5" by code_simp
  show ?thesis
    using logo_dimsI[OF _ _ _ 1 _ 2 _ 3] by (simp add: py_int_def)
qed

lemma example_dims_large: "logo_dims 100 (4, 2) (round_double (12 / 10)) = Inr (120, 60)"
proof -
  have 1: "round_double (of_int (int 100) * round_double (12 / 10)) = 120" by code_simp
  have 2: "round_double (of_int (py_int 120) / of_int (int 4)) = 30" by code_simp
  have 3: "round_double (of_int (int 2) * 30) = 60" by code_simp
  show ?thesis
    using logo_dimsI[OF _ _ _ 1 _ 2 _ 3] by (simp add: py_int_def)
qed

lemma apply_logo_fstI:
  assumes "current_logo self = Some logo" "logo < length h" "img < length h"
    and "logo_dims (fst (im_size (h ! img))) (im_size (h ! logo))
           (logo_size (update_settings (default_settings self) kw)) = Inr dims"
    and "resize_error L (h ! logo) dims = None"
    and "placement (kw_custom_position kw) (position (update_settings (default_settings self) kw))
           (margin (update_settings (default_settings self) kw)) (im_size (h ! img)) dims = Inr xy"
  shows "fst (apply_logo L self h img kw) =
           Inr \<lparr>result_image = length h,
                logged_position = clamp_position xy (im_size (h ! img)) dims,
                logged_size = dims\<rparr>"
  unfolding apply_logo_unfold[OF assms(1-3)] by (simp add: Let_def assms(4-6))

lemma placement_bottom_right:
  "placement None ''bottom_right'' m img_sz logo_sz =
     Inr (int (fst img_sz) - fst logo_sz - m, int (snd img_sz) - snd logo_sz - m)"
  by (simp add: placement_def LOGO_POSITIONS_def anchor_coord_def int_mul_num_def int_of_num_def
      num_eq_int_def)

lemma placement_unknown:
  "map_of LOGO_POSITIONS pos = None \<Longrightarrow>
     placement c pos m img_sz logo_sz = placement c ''bottom_right'' m img_sz logo_sz"
proof -
  assume n: "map_of LOGO_POSITIONS pos = None"
  have br: "map_of LOGO_POSITIONS ''bottom_right'' = Some (PyInt 1, PyInt 1)"
    by (simp add: LOGO_POSITIONS_def)
  show ?thesis by (cases c) (simp_all add: placement_def n br)
qed

lemma example_run:
  assumes "kw_position kw = None \<or> kw_position kw = Some ''bottom_right''"
    and "kw_size kw = None" "kw_margin kw = None" "kw_custom_position kw = None"
  shows "fst (apply_logo example_pil example_processor example_heap 0 kw) =
     Inr \<lparr>result_image = 2, logged_position = (70, 55), logged_size = (10, 5)\<rparr>"
proof -
  have st: "position (update_settings (default_settings example_processor) kw) = ''bottom_right''"
    "logo_size (update_settings (default_settings example_processor) kw) = default_logo_size"
    "margin (update_settings (default_settings example_processor) kw) = 20"
    using assms
    by (auto simp: update_settings_def example_processor_def init_def
        default_position_def logo_margin_def)
  have c: "current_logo example_processor = Some 1"
    by (simp add: example_processor_def)
  have l: "1 < length example_heap" "0 < length example_heap"
    by (simp_all add: example_heap_def)
  have d: "logo_dims (fst (im_size (example_heap ! 0))) (im_size (example_heap ! 1))
             (logo_size (update_settings (default_settings example_processor) kw)) = Inr (10, 5)"
    unfolding st by (simp add: example_heap_def example_base_def example_logo_def example_dims_default)
  have r: "resize_error example_pil (example_heap ! 1) (10, 5) = None"
    by (simp add: resize_error_def example_pil_def)
  have p: "placement (kw_custom_position kw)
             (position (update_settings (default_settings example_processor) kw))
             (margin (update_settings (default_settings example_processor) kw))
             (im_size (example_heap ! 0)) (10, 5) = Inr (70, 55)"
    unfolding st
    by (simp add: assms placement_bottom_right example_heap_def example_base_def)
  have "fst (apply_logo example_pil example_processor example_heap 0 kw) =
        Inr \<lparr>result_image = length example_heap,
             logged_position = clamp_position (70, 55) (im_size (example_heap ! 0)) (10, 5),
             logged_size = (10, 5)\<rparr>"
    by (rule apply_logo_fstI[OF c l d r p])
  then show ?thesis
    by (simp add: example_heap_def example_base_def clamp_position_def)
qed

lemma int_mul_float_half:
  assumes "\<bar>n\<bar> < 2 ^ 53"
  shows "int_mul_float n (1 / 2) = Inr (of_int n * (1 / 2))"
proof -
  have "\<bar>of_int n :: rat\<bar> < of_int (2 ^ 53)"
    using assms unfolding of_int_abs[symmetric] by (simp only: of_int_less_iff)
  then have "\<bar>of_int n * (1 / 2) :: rat\<bar> < 2 ^ 1024"
    by (simp add: abs_mult)
  then have "to_double (of_int n * (1 / 2)) = Inr (of_int n * (1 / 2))"
    by (rule to_doubleI[OF round_double_half[OF assms]])
  then show ?thesis
    by (simp only: int_mul_float_def float_of_int_exact[OF assms] sum.case)
qed

lemma floor_three_halves: "\<lfloor>3 / 2 :: rat\<rfloor> = 1"
  by (simp add: floor_eq_iff)

lemma LOGO_POSITIONS_values:
  assumes "map_of LOGO_POSITIONS pos = Some (rel_x, rel_y)"
  shows "rel_x \<in> {PyInt 0, PyFloat (1 / 2), PyInt 1}" "rel_y \<in> {PyInt 0, PyFloat (1 / 2), PyInt 1}"
proof -
  from assms have "(pos, rel_x, rel_y) \<in> set LOGO_POSITIONS" by (rule map_of_SomeD)
  then show "rel_x \<in> {PyInt 0, PyFloat (1 / 2), PyInt 1}" "rel_y \<in> {PyInt 0, PyFloat (1 / 2), PyInt 1}"
    by (auto simp: LOGO_POSITIONS_def)
qed

lemma anchor_coord_value:
  assumes "rel \<in> {PyInt 0, PyFloat (1 / 2), PyInt 1}" "\<bar>img_dim - logo_dim\<bar> < 2 ^ 53"
  shows "anchor_coord img_dim logo_dim rel m =
         Inr (py_int (of_int (img_dim - logo_dim) * num_value rel) +
              (if num_value rel = 0 then m else if num_value rel = 1 then - m else 0))"
  using assms
  by (auto simp: anchor_coord_def int_mul_num_def int_mul_float_half int_of_num_def num_eq_int_def
      num_value_def py_int_def)

lemma py_int_nonneg: "0 \<le> q \<Longrightarrow> py_int q = \<lfloor>q\<rfloor>"
  by (simp add: py_int_def)

lemma logo_dims_InrD:
  assumes "logo_dims W (w0, h0) s = Inr (lw, lh)" "int W < 2 ^ 53" "int h0 < 2 ^ 53"
  shows "lw = py_int (round_double (of_int (int W) * s))"
    and "w0 \<noteq> 0"
    and "lh = py_int (round_double (of_int (int h0) * round_double (of_int lw / of_int (int w0))))"
  using assms
  by (auto simp: logo_dims_def int_mul_float_def float_of_int_exact int_truediv_def to_double_def
      Let_def split: sum.splits if_splits)

lemma height_within_one_pixel:
  fixes lw :: int and w0 h0 :: nat
  assumes lw: "0 \<le> lw" and w0: "0 < w0" "int w0 < 2 ^ 53" and b: "3 * int h0 * lw < 2 ^ 53"
  defines "x \<equiv> (of_int (int h0) * of_int lw / of_int (int w0) :: rat)"
  defines "k \<equiv> py_int (round_double (of_int (int h0) * round_double (of_int lw / of_int (int w0))))"
  shows "x - 1 \<le> of_int k \<and> of_int k \<le> x"
proof (cases "lw = 0 \<or> h0 = 0")
  case True
  then have "x = 0" "k = 0"
    by (auto simp: x_def k_def round_double_def py_int_def)
  then show ?thesis by simp
next
  case False
  then have lw1: "1 \<le> lw" and h1: "1 \<le> h0" using lw by auto
  define u :: rat where "u = 1 / 2 ^ 53"
  define r :: rat where "r = of_int lw / of_int (int w0)"
  define r' where "r' = round_double r"
  define y where "y = of_int (int h0) * r'"
  define p where "p = round_double y"
  have wpos: "(0::rat) < of_int (int w0)" using w0 by simp
  have hpos: "(1::rat) \<le> of_int (int h0)" using h1 by simp
  have u: "0 < u" "u \<le> 1 / 2" by (simp_all add: u_def)
  have small: "(2::rat) powi (- 1022) \<le> 2 powi (- 54)"
    by (rule power_int_increasing) simp_all
  have p54: "(2::rat) powi (- 54) = 1 / 2 ^ 54"
    by (simp add: power_int_minus_divide)
  have wlt: "(of_int (int w0) :: rat) < 2 ^ 53"
    using w0(2) of_int_less_iff[of "int w0" "2 ^ 53", where ?'a = rat] by simp
  have rge: "1 / 2 ^ 53 \<le> r"
  proof -
    have "(1::rat) / 2 ^ 53 \<le> 1 / of_int (int w0)"
      using wlt wpos by (intro divide_left_mono) simp_all
    also have "\<dots> \<le> of_int lw / of_int (int w0)"
      using lw1 wpos by (intro divide_right_mono) simp_all
    finally show ?thesis by (simp add: r_def)
  qed
  then have rpos: "0 < r" by (rule less_le_trans[rotated]) simp
  have rn: "2 powi (- 1022) \<le> \<bar>r\<bar>"
    using small rge rpos by (simp add: p54)
  have re: "\<bar>r' - r\<bar> \<le> r * u"
    using round_double_error[OF rn] rpos by (simp add: r'_def u_def)
  have r'ge: "r / 2 \<le> r'"
  proof -
    have "r - r * u \<le> r'" using re by (simp add: abs_le_iff)
    moreover have "r * u \<le> r * (1 / 2)" using u rpos by (intro mult_left_mono) simp_all
    ultimately show ?thesis by simp
  qed
  have r'pos: "0 < r'" using r'ge rpos by simp
  have xr: "x = of_int (int h0) * r" by (simp add: x_def r_def)
  have xpos: "0 < x" using hpos rpos by (simp add: xr)
  have yx: "\<bar>y - x\<bar> \<le> x * u"
  proof -
    have "\<bar>y - x\<bar> = of_int (int h0) * \<bar>r' - r\<bar>"
      by (simp add: y_def xr abs_mult right_diff_distrib[symmetric])
    also have "\<dots> \<le> of_int (int h0) * (r * u)"
      using re hpos by (intro mult_left_mono) simp_all
    finally show ?thesis by (simp add: xr mult.assoc)
  qed
  have yge: "r' \<le> y"
    using hpos r'pos by (simp add: y_def mult_le_cancel_right1)
  have ypos: "0 < y" using yge r'pos by simp
  have yn: "2 powi (- 1022) \<le> \<bar>y\<bar>"
  proof -
    have "(1::rat) / 2 ^ 54 \<le> r / 2" using rge by simp
    also have "\<dots> \<le> y" using r'ge yge by simp
    finally show ?thesis using small ypos by (simp add: p54)
  qed
  have pe: "\<bar>p - y\<bar> \<le> y * u"
    using round_double_error[OF yn] ypos by (simp add: p_def u_def)
  have yle: "y \<le> 2 * x"
  proof -
    have "y \<le> x + x * u" using yx by (simp add: abs_le_iff)
    moreover have "x * u \<le> x * 1" using u xpos by (intro mult_left_mono) simp_all
    ultimately show ?thesis by simp
  qed
  have px: "\<bar>p - x\<bar> \<le> 3 * x * u"
  proof -
    have "\<bar>p - x\<bar> \<le> \<bar>p - y\<bar> + \<bar>y - x\<bar>" by simp
    also have "\<dots> \<le> y * u + x * u" using pe yx by simp
    also have "\<dots> \<le> 2 * x * u + x * u"
      using yle u by (simp add: mult_right_mono)
    finally show ?thesis by (simp add: algebra_simps)
  qed
  have close: "of_int (int w0) * \<bar>p - x\<bar> < 1"
  proof -
    have "of_int (int w0) * \<bar>p - x\<bar> \<le> of_int (int w0) * (3 * x * u)"
      using px wpos by (intro mult_left_mono) simp_all
    also have "\<dots> = of_int (3 * int h0 * lw) * u"
      using wpos by (simp add: x_def)
    also have "\<dots> < of_int (2 ^ 53) * u"
      using b u(1) by (intro mult_strict_right_mono) (simp_all only: of_int_less_iff)
    also have "\<dots> = 1" by (simp add: u_def)
    finally show ?thesis .
  qed
  have p0: "0 \<le> p" unfolding p_def using ypos by (intro round_double_sign(1)) simp
  have k: "k = \<lfloor>p\<rfloor>"
    unfolding k_def using p0 by (simp add: py_int_nonneg p_def y_def r'_def r_def)
  have kp: "of_int k \<le> p" "p < of_int k + 1" unfolding k by linarith+
  have wx: "of_int (int w0) * x = of_int (int h0 * lw)"
    using wpos by (simp add: x_def)
  have upper: "of_int k \<le> x"
  proof (rule ccontr)
    assume "\<not> of_int k \<le> x"
    then have "x < of_int k" by simp
    then have "of_int (int w0) * x < of_int (int w0) * of_int k"
      using wpos by (simp add: mult_less_cancel_left_pos)
    then have "(of_int (int h0 * lw) :: rat) < of_int (int w0 * k)"
      by (simp only: wx of_int_mult)
    then have "int h0 * lw < int w0 * k" by (simp only: of_int_less_iff)
    then have "int h0 * lw + 1 \<le> int w0 * k" by simp
    then have "(of_int (int h0 * lw + 1) :: rat) \<le> of_int (int w0 * k)"
      by (simp only: of_int_le_iff)
    then have "of_int (int w0) * x + 1 \<le> of_int (int w0) * of_int k"
      by (simp only: wx of_int_mult of_int_add of_int_1)
    also have "\<dots> \<le> of_int (int w0) * p"
      using kp(1) wpos by (intro mult_left_mono) simp_all
    finally have "1 \<le> of_int (int w0) * (p - x)" by (simp add: algebra_simps)
    also have "\<dots> \<le> of_int (int w0) * \<bar>p - x\<bar>"
      using wpos by (intro mult_left_mono) simp_all
    finally show False using close by simp
  qed
  have lower: "x - 1 \<le> of_int k"
  proof (rule ccontr)
    assume "\<not> x - 1 \<le> of_int k"
    then have "of_int k + 1 < x" by simp
    then have "of_int (int w0) * (of_int k + 1) < of_int (int w0) * x"
      using wpos by (simp add: mult_less_cancel_left_pos)
    then have "(of_int (int w0 * (k + 1)) :: rat) < of_int (int h0 * lw)"
      by (simp only: wx of_int_mult of_int_add of_int_1)
    then have "int w0 * (k + 1) < int h0 * lw" by (simp only: of_int_less_iff)
    then have "int w0 * (k + 1) + 1 \<le> int h0 * lw" by simp
    then have "(of_int (int w0 * (k + 1) + 1) :: rat) \<le> of_int (int h0 * lw)"
      by (simp only: of_int_le_iff)
    then have "of_int (int w0) * (of_int k + 1) + 1 \<le> of_int (int w0) * x"
      by (simp only: wx of_int_mult of_int_add of_int_1)
    moreover have "of_int (int w0) * p \<le> of_int (int w0) * (of_int k + 1)"
      using kp(2) wpos by (intro mult_left_mono) simp_all
    ultimately have "1 \<le> of_int (int w0) * (x - p)" by (simp add: algebra_simps)
    also have "\<dots> \<le> of_int (int w0) * \<bar>p - x\<bar>"
      using wpos by (intro mult_left_mono) simp_all
    finally show False using close by simp
  qed
  show ?thesis using lower upper by simp
qed

lemma apply_logo_fst_cases:
  assumes "current_logo self = Some logo" "logo < length h" "img < length h"
  shows "fst (apply_logo L self h img kw) =
     (case logo_dims (fst (im_size (h ! img))) (im_size (h ! logo))
             (logo_size (update_settings (default_settings self) kw)) of
        Inl e \<Rightarrow> Inl (ApplyFailed e)
      | Inr dims \<Rightarrow>
          (case resize_error L (h ! logo) dims of
             Some e \<Rightarrow> Inl (ApplyFailed e)
           | None \<Rightarrow>
               (case placement (kw_custom_position kw)
                       (position (update_settings (default_settings self) kw))
                       (margin (update_settings (default_settings self) kw))
                       (im_size (h ! img)) dims of
                  Inl e \<Rightarrow> Inl (ApplyFailed e)
                | Inr xy \<Rightarrow>
                    Inr \<lparr>result_image = length h,
                         logged_position = clamp_position xy (im_size (h ! img)) dims,
                         logged_size = dims\<rparr>)))"
  unfolding apply_logo_unfold[OF assms]
  by (simp add: Let_def split: sum.split option.split)

lemma anchor_coord_total:
  assumes "rel \<in> {PyInt 0, PyFloat (1 / 2), PyInt 1}" "\<bar>img_dim - logo_dim\<bar> < 2 ^ 53"
  shows "\<exists>c. anchor_coord img_dim logo_dim rel m = Inr c"
  using anchor_coord_value[OF assms] by simp

lemma placement_total:
  assumes "\<bar>int (fst img_sz) - fst logo_sz\<bar> < 2 ^ 53" "\<bar>int (snd img_sz) - snd logo_sz\<bar> < 2 ^ 53"
  shows "\<exists>xy. placement custom pos m img_sz logo_sz = Inr xy"
proof (cases custom)
  case (Some xy)
  then show ?thesis by (simp add: placement_def)
next
  case None
  obtain rel_x rel_y where r: "(case map_of LOGO_POSITIONS pos of
                   Some r \<Rightarrow> r
                 | None \<Rightarrow> the (map_of LOGO_POSITIONS ''bottom_right'')) = (rel_x, rel_y)"
    by (cases "case map_of LOGO_POSITIONS pos of
                   Some r \<Rightarrow> r
                 | None \<Rightarrow> the (map_of LOGO_POSITIONS ''bottom_right'')")
  have br: "map_of LOGO_POSITIONS ''bottom_right'' = Some (PyInt 1, PyInt 1)"
    by (simp add: LOGO_POSITIONS_def)
  have "\<exists>p. map_of LOGO_POSITIONS p = Some (rel_x, rel_y)"
  proof (cases "map_of LOGO_POSITIONS pos")
    case None
    with r br have "map_of LOGO_POSITIONS ''bottom_right'' = Some (rel_x, rel_y)" by auto
    then show ?thesis ..
  next
    case (Some v)
    with r have "map_of LOGO_POSITIONS pos = Some (rel_x, rel_y)" by simp
    then show ?thesis ..
  qed
  then obtain p where "map_of LOGO_POSITIONS p = Some (rel_x, rel_y)" ..
  note V = LOGO_POSITIONS_values[OF this]
  from anchor_coord_total[OF V(1) assms(1)] obtain x where
    x: "anchor_coord (int (fst img_sz)) (fst logo_sz) rel_x m = Inr x" ..
  from anchor_coord_total[OF V(2) assms(2)] obtain y where
    y: "anchor_coord (int (snd img_sz)) (snd logo_sz) rel_y m = Inr y" ..
  show ?thesis
    by (simp add: placement_def None r x y)
qed

lemma logo_width_nonpositive:
  assumes "logo_dims W logo_sz s = Inr (lw, lh)" "s \<le> 0" "int W < 2 ^ 53"
  shows "lw \<le> 0"
proof -
  have "of_int (int W) * s \<le> 0" using assms(2) by (simp add: mult_le_0_iff)
  then have p: "round_double (of_int (int W) * s) \<le> 0" by (rule round_double_sign(2))
  have "lw = py_int (round_double (of_int (int W) * s))"
    using assms(1,3)
    by (auto simp: logo_dims_def int_mul_float_def float_of_int_exact to_double_def Let_def
        split: sum.splits if_splits)
  then show ?thesis using p by (simp add: py_int_def)
qed

lemma default_values:
  "default_logo_size = 3602879701896397 / 36028797018963968"
  "default_opacity = 3602879701896397 / 4503599627370496"
  by code_simp+

lemma example_run_large:
  assumes "kw_position kw = None \<or> kw_position kw = Some ''bottom_right''"
    and "kw_size kw = Some (round_double (12 / 10))" "kw_margin kw = None"
    and "kw_custom_position kw = None"
  shows "fst (apply_logo example_pil example_processor example_heap 0 kw) =
     Inr \<lparr>result_image = 2, logged_position = (0, 0), logged_size = (120, 60)\<rparr>"
proof -
  have st: "position (update_settings (default_settings example_processor) kw) = ''bottom_right''"
    "logo_size (update_settings (default_settings example_processor) kw) = round_double (12 / 10)"
    "margin (update_settings (default_settings example_processor) kw) = 20"
    using assms
    by (auto simp: update_settings_def example_processor_def init_def
        default_position_def logo_margin_def)
  have c: "current_logo example_processor = Some 1"
    by (simp add: example_processor_def)
  have l: "1 < length example_heap" "0 < length example_heap"
    by (simp_all add: example_heap_def)
  have d: "logo_dims (fst (im_size (example_heap ! 0))) (im_size (example_heap ! 1))
             (logo_size (update_settings (default_settings example_processor) kw)) = Inr (120, 60)"
    unfolding st
    by (simp only: example_heap_def example_base_def example_logo_def nth_Cons_0 nth_Cons_Suc One_nat_def
        image.simps fst_conv example_dims_large)
  have r: "resize_error example_pil (example_heap ! 1) (120, 60) = None"
    by (simp add: resize_error_def example_pil_def)
  have p: "placement (kw_custom_position kw)
             (position (update_settings (default_settings example_processor) kw))
             (margin (update_settings (default_settings example_processor) kw))
             (im_size (example_heap ! 0)) (120, 60) = Inr (- 40, 0)"
    unfolding st
    by (simp add: assms placement_bottom_right example_heap_def example_base_def)
  have "fst (apply_logo example_pil example_processor example_heap 0 kw) =
        Inr \<lparr>result_image = length example_heap,
             logged_position = clamp_position (- 40, 0) (im_size (example_heap ! 0)) (120, 60),
             logged_size = (120, 60)\<rparr>"
    by (rule apply_logo_fstI[OF c l d r p])
  then show ?thesis
    by (simp add: example_heap_def example_base_def clamp_position_def)
qed

lemma example_refs:
  "current_logo example_processor = Some 1" "1 < length example_heap" "0 < length example_heap"
  by (simp_all add: example_processor_def example_heap_def)

lemma example_large:
  "fst (apply_logo example_pil example_processor example_heap 0 large_kwargs) =
     Inr \<lparr>result_image = 2, logged_position = (0, 0), logged_size = (120, 60)\<rparr>"
  by (rule example_run_large) (simp_all add: large_kwargs_def no_kwargs_def)

lemma example_default:
  "fst (apply_logo example_pil example_processor example_heap 0 no_kwargs) =
     Inr \<lparr>result_image = 2, logged_position = (70, 55), logged_size = (10, 5)\<rparr>"
  by (rule example_run) (simp_all add: no_kwargs_def)

lemma example_opaque:
  "fst (apply_logo example_pil example_processor example_heap 0 opaque_kwargs) =
     Inr \<lparr>result_image = 2, logged_position = (70, 55), logged_size = (10, 5)\<rparr>"
  by (rule example_run) (simp_all add: opaque_kwargs_def no_kwargs_def)

lemma example_opacities:
  "opacity (update_settings (default_settings example_processor) opaque_kwargs) = 1"
  "opacity (update_settings (default_settings example_processor) no_kwargs) = default_opacity"
  "default_opacity < 1"
  by (simp_all add: update_settings_def opaque_kwargs_def no_kwargs_def example_processor_def
      init_def default_values)

lemma example_sizes:
  "fst (im_size (example_heap ! 0)) = 100" "snd (im_size (example_heap ! 0)) = 80"
  "im_size (example_heap ! 1) = (4, 2)"
  by (simp_all add: example_heap_def example_base_def example_logo_def)

lemma example_logo_sizes:
  "logo_size (update_settings (default_settings example_processor) no_kwargs) = default_logo_size"
  "logo_size (update_settings (default_settings example_processor) large_kwargs) = round_double (12 / 10)"
  "logo_size (update_settings (default_settings example_processor) (no_kwargs\<lparr>kw_size := Some (- (1 / 2))\<rparr>)) = - (1 / 2)"
  by (simp_all add: update_settings_def example_processor_def init_def no_kwargs_def large_kwargs_def)

lemma example_large_dims:
  "logo_dims (fst (im_size (example_heap ! 0))) (im_size (example_heap ! 1))
     (logo_size (update_settings (default_settings example_processor) large_kwargs)) = Inr (120, 60)"
  unfolding example_sizes example_logo_sizes by (rule example_dims_large)

lemma example_dims_huge: "logo_dims 100 (4, 2) 6000000 = Inr (600000000, 300000000)"
proof -
  have 1: "round_double (of_int (int 100) * 6000000) = 600000000" by code_simp
  have 2: "round_double (of_int (py_int 600000000) / of_int (int 4)) = 150000000" by code_simp
  have 3: "round_double (of_int (int 2) * 150000000) = 300000000" by code_simp
  show ?thesis
    using logo_dimsI[OF _ _ _ 1 _ 2 _ 3] by (simp add: py_int_def)
qed

lemma example_huge:
  "fst (apply_logo example_pil example_processor example_heap 0 huge_kwargs) =
     Inl (ApplyFailed MemoryError)"
proof -
  have s: "logo_size (update_settings (default_settings example_processor) huge_kwargs) = 6000000"
    by (simp add: update_settings_def huge_kwargs_def no_kwargs_def)
  have d: "logo_dims (fst (im_size (example_heap ! 0))) (im_size (example_heap ! 1))
             (logo_size (update_settings (default_settings example_processor) huge_kwargs)) =
           Inr (600000000, 300000000)"
    unfolding example_sizes s by (rule example_dims_huge)
  have r: "resize_error example_pil (example_heap ! 1) (600000000, 300000000) = Some MemoryError"
    by (simp add: resize_error_def example_pil_def)
  show ?thesis
    unfolding apply_logo_fst_cases[OF example_refs] d sum.case r by simp
qed

lemma example_custom:
  "fst (apply_logo example_pil example_processor example_heap 0 custom_kwargs) =
     Inr \<lparr>result_image = 2, logged_position = (90, 75), logged_size = (10, 5)\<rparr>"
proof -
  have st: "logo_size (update_settings (default_settings example_processor) custom_kwargs) =
            default_logo_size"
    by (simp add: update_settings_def custom_kwargs_def no_kwargs_def example_processor_def init_def)
  have d: "logo_dims (fst (im_size (example_heap ! 0))) (im_size (example_heap ! 1))
             (logo_size (update_settings (default_settings example_processor) custom_kwargs)) =
           Inr (10, 5)"
    unfolding example_sizes st by (rule example_dims_default)
  have r: "resize_error example_pil (example_heap ! 1) (10, 5) = None"
    by (simp add: resize_error_def example_pil_def)
  have p: "placement (kw_custom_position custom_kwargs)
             (position (update_settings (default_settings example_processor) custom_kwargs))
             (margin (update_settings (default_settings example_processor) custom_kwargs))
             (im_size (example_heap ! 0)) (10, 5) = Inr (95, 78)"
    by (simp add: placement_def custom_kwargs_def no_kwargs_def)
  have "fst (apply_logo example_pil example_processor example_heap 0 custom_kwargs) =
        Inr \<lparr>result_image = length example_heap,
             logged_position = clamp_position (95, 78) (im_size (example_heap ! 0)) (10, 5),
             logged_size = (10, 5)\<rparr>"
    by (rule apply_logo_fstI[OF example_refs d r p])
  then show ?thesis
    by (simp add: example_heap_def example_base_def clamp_position_def)
qed

section \<open>No validation of relative size and opacity (C1)\<close>

text \<open>
  Claim C1, as amended.  \<open>apply_logo\<close> does not validate the relative size or the
  opacity.  For a loaded logo and a base image whose sides are below \<open>2^31\<close>, the call
  succeeds exactly when the computed logo size is one that \<open>resize\<close> accepts (both
  numbers at least 1 and below \<open>2^31\<close>) and the library finds the memory to resize the
  logo to it, whatever the opacity and also for a relative size above 1; and it fails,
  with an exception caught by the \<open>try\<close> block, whenever the relative size is zero or
  negative.
\<close>

theorem relative_size_and_opacity_not_validated:
  assumes "current_logo self = Some logo" "logo < length h" "img < length h"
    and "int (fst (im_size (h ! img))) < 2 ^ 31" "int (snd (im_size (h ! img))) < 2 ^ 31"
  shows "((\<exists>a. fst (apply_logo L self h img kw) = Inr a) =
          (\<exists>lw lh. logo_dims (fst (im_size (h ! img))) (im_size (h ! logo))
                      (logo_size (update_settings (default_settings self) kw)) = Inr (lw, lh) \<and>
                   1 \<le> lw \<and> lw < 2 ^ 31 \<and> 1 \<le> lh \<and> lh < 2 ^ 31 \<and>
                   can_allocate L (h ! logo) (nat lw, nat lh))) \<and>
         (logo_size (update_settings (default_settings self) kw) \<le> 0 \<longrightarrow>
          (\<exists>e. fst (apply_logo L self h img kw) = Inl (ApplyFailed e)))"
proof -
  let ?st = "update_settings (default_settings self) kw"
  let ?d = "logo_dims (fst (im_size (h ! img))) (im_size (h ! logo)) (logo_size ?st)"
  note C = apply_logo_fst_cases[OF assms(1-3), of L kw]
  have range: "resize_error L (h ! logo) (lw, lh) = None \<longleftrightarrow>
      1 \<le> lw \<and> lw < 2 ^ 31 \<and> 1 \<le> lh \<and> lh < 2 ^ 31 \<and> can_allocate L (h ! logo) (nat lw, nat lh)"
    for lw lh :: int
    by (auto simp: resize_error_def)
  have fwd: "\<exists>lw lh. ?d = Inr (lw, lh) \<and> 1 \<le> lw \<and> lw < 2 ^ 31 \<and> 1 \<le> lh \<and> lh < 2 ^ 31 \<and>
               can_allocate L (h ! logo) (nat lw, nat lh)"
    if "fst (apply_logo L self h img kw) = Inr a" for a
  proof -
    note S = apply_logo_success[OF assms(1-3) that]
    obtain lw lh where l: "logged_size a = (lw, lh)" by (cases "logged_size a")
    from S(2,3) show ?thesis unfolding l range by blast
  qed
  have bwd: "\<exists>a. fst (apply_logo L self h img kw) = Inr a"
    if d: "?d = Inr (lw, lh)" and r: "1 \<le> lw" "lw < 2 ^ 31" "1 \<le> lh" "lh < 2 ^ 31"
      and m: "can_allocate L (h ! logo) (nat lw, nat lh)" for lw lh
  proof -
    have re: "resize_error L (h ! logo) (lw, lh) = None" using r m by (simp add: range)
    have "\<bar>int (fst (im_size (h ! img))) - fst (lw, lh)\<bar> < 2 ^ 53"
      "\<bar>int (snd (im_size (h ! img))) - snd (lw, lh)\<bar> < 2 ^ 53"
      using assms(4,5) r by simp_all
    from placement_total[OF this] obtain xy where
      "placement (kw_custom_position kw) (position ?st) (margin ?st) (im_size (h ! img)) (lw, lh) = Inr xy"
      by blast
    then show ?thesis unfolding C by (simp add: d re)
  qed
  have neg: "\<exists>e. fst (apply_logo L self h img kw) = Inl (ApplyFailed e)"
    if s: "logo_size ?st \<le> 0"
  proof (cases ?d)
    case (Inl e)
    then show ?thesis unfolding C by simp
  next
    case (Inr dims)
    obtain lw lh where l: "dims = (lw, lh)" by (cases dims)
    have "int (fst (im_size (h ! img))) < 2 ^ 53" using assms(4) by simp
    from logo_width_nonpositive[OF Inr[unfolded l] s this] have "lw \<le> 0" .
    then have "resize_error L (h ! logo) (lw, lh) \<noteq> None" by (simp add: range)
    then obtain e where "resize_error L (h ! logo) (lw, lh) = Some e" by blast
    then show ?thesis unfolding C by (simp add: Inr l)
  qed
  show ?thesis using fwd bwd neg by blast
qed

theorem relative_size_and_opacity_not_validated_witness:
  "current_logo example_processor = Some 1 \<and> 1 < length example_heap \<and> 0 < length example_heap \<and>
   int (fst (im_size (example_heap ! 0))) < 2 ^ 31 \<and> int (snd (im_size (example_heap ! 0))) < 2 ^ 31 \<and>
   1 < logo_size (update_settings (default_settings example_processor) large_kwargs) \<and>
   (\<exists>a. fst (apply_logo example_pil example_processor example_heap 0 large_kwargs) = Inr a) \<and>
   logo_size (update_settings (default_settings example_processor)
       (no_kwargs\<lparr>kw_size := Some (- (1 / 2))\<rparr>)) \<le> 0 \<and>
   (\<exists>e. fst (apply_logo example_pil example_processor example_heap 0
             (no_kwargs\<lparr>kw_size := Some (- (1 / 2))\<rparr>)) = Inl (ApplyFailed e)) \<and>
   \<not> can_allocate example_pil (example_heap ! 1) (600000000, 300000000) \<and>
   \<not> (\<exists>a. fst (apply_logo example_pil example_processor example_heap 0 huge_kwargs) = Inr a) \<and>
   fst (apply_logo example_pil example_processor example_heap 0 huge_kwargs) =
     Inl (ApplyFailed MemoryError)"
proof -
  have b: "int (fst (im_size (example_heap ! 0))) < 2 ^ 31" "int (snd (im_size (example_heap ! 0))) < 2 ^ 31"
    by (simp_all add: example_sizes)
  note T1 = relative_size_and_opacity_not_validated[OF example_refs b, of example_pil large_kwargs]
  note T2 = relative_size_and_opacity_not_validated[OF example_refs b, of example_pil
      "no_kwargs\<lparr>kw_size := Some (- (1 / 2))\<rparr>"]
  have big: "1 < logo_size (update_settings (default_settings example_processor) large_kwargs)"
    unfolding example_logo_sizes by code_simp
  have "\<exists>lw lh. logo_dims (fst (im_size (example_heap ! 0))) (im_size (example_heap ! 1))
          (logo_size (update_settings (default_settings example_processor) large_kwargs)) = Inr (lw, lh) \<and>
          1 \<le> lw \<and> lw < 2 ^ 31 \<and> 1 \<le> lh \<and> lh < 2 ^ 31 \<and>
          can_allocate example_pil (example_heap ! 1) (nat lw, nat lh)"
    unfolding example_large_dims by (simp add: example_pil_def)
  with T1 have 1: "\<exists>a. fst (apply_logo example_pil example_processor example_heap 0 large_kwargs) = Inr a"
    by blast
  have n: "logo_size (update_settings (default_settings example_processor)
       (no_kwargs\<lparr>kw_size := Some (- (1 / 2))\<rparr>)) \<le> 0"
    by (simp add: example_logo_sizes)
  with T2 have 2: "\<exists>e. fst (apply_logo example_pil example_processor example_heap 0
             (no_kwargs\<lparr>kw_size := Some (- (1 / 2))\<rparr>)) = Inl (ApplyFailed e)"
    by blast
  note T3 = relative_size_and_opacity_not_validated[OF example_refs b, of example_pil huge_kwargs]
  have m: "\<not> can_allocate example_pil (example_heap ! 1) (600000000, 300000000)"
    by (simp add: example_pil_def)
  have 3: "\<not> (\<exists>a. fst (apply_logo example_pil example_processor example_heap 0 huge_kwargs) = Inr a)"
    using T3 by (simp add: example_huge)
  show ?thesis
    by (intro conjI example_refs b big 1 n 2 m 3 example_huge)
qed

text \<open>
  The claim as stated fails at the relative size 1.2: the call returns a composited
  image, with a logo of 120 x 60 on the base of 100 x 80, placed at (0, 0).
\<close>

theorem relative_size_out_of_range_counterexample:
  "kw_size large_kwargs = Some (5404319552844595 / 4503599627370496) \<and>
   (1::rat) < 5404319552844595 / 4503599627370496 \<and>
   fst (apply_logo example_pil example_processor example_heap 0 large_kwargs) =
     Inr \<lparr>result_image = 2, logged_position = (0, 0), logged_size = (120, 60)\<rparr>"
proof -
  have "round_double (12 / 10) = 5404319552844595 / 4503599627370496" by code_simp
  then have "kw_size large_kwargs = Some (5404319552844595 / 4503599627370496)"
    by (simp only: large_kwargs_def no_kwargs_def kwargs.simps)
  then show ?thesis using example_large by simp
qed

section \<open>The size of the resized logo (C2)\<close>

text \<open>
  Claim C2, as amended.  For a loaded logo of size \<open>(w0, h0)\<close>, a base image of width
  \<open>W\<close> and a relative size \<open>s\<close> in (0, 1], on success the resized logo has width
  \<open>floor(W * s)\<close> and height \<open>floor(h0 * (width / w0))\<close>, where each product and the
  quotient are the double-precision results and the height is truncated, not rounded.
  With sides below \<open>2^31\<close> and \<open>3 * h0 * width < 2^53\<close> the height is at most the exact
  \<open>h0 * width / w0\<close> and at most one pixel below it.
\<close>

theorem resized_logo_size_truncates:
  fixes s :: rat and W w0 h0 :: nat and lw lh :: int
  assumes "current_logo self = Some logo" "logo < length h" "img < length h"
    and "fst (apply_logo L self h img kw) = Inr a"
    and "s = logo_size (update_settings (default_settings self) kw)" "0 < s" "s \<le> 1"
    and "W = fst (im_size (h ! img))" "im_size (h ! logo) = (w0, h0)" "logged_size a = (lw, lh)"
    and "int W < 2 ^ 31" "int w0 < 2 ^ 31" "int h0 < 2 ^ 31" "3 * int h0 * lw < 2 ^ 53"
  shows "lw = \<lfloor>round_double (of_int (int W) * s)\<rfloor> \<and>
         lh = \<lfloor>round_double (of_int (int h0) * round_double (of_int lw / of_int (int w0)))\<rfloor> \<and>
         of_int (int h0) * of_int lw / of_int (int w0) - 1 \<le> (of_int lh :: rat) \<and>
         (of_int lh :: rat) \<le> of_int (int h0) * of_int lw / of_int (int w0)"
proof -
  note S = apply_logo_success[OF assms(1-4)]
  have d: "logo_dims W (w0, h0) s = Inr (lw, lh)"
    using S(2) assms(5,8,9,10) by simp
  have W53: "int W < 2 ^ 53" and h53: "int h0 < 2 ^ 53" and w53: "int w0 < 2 ^ 53"
    using assms(11-13) by simp_all
  note D = logo_dims_InrD[OF d W53 h53]
  have "0 \<le> of_int (int W) * s" using assms(6) by simp
  then have p0: "0 \<le> round_double (of_int (int W) * s)" by (rule round_double_sign(1))
  then have lw: "lw = \<lfloor>round_double (of_int (int W) * s)\<rfloor>"
    using D(1) by (simp add: py_int_nonneg)
  have lw0: "0 \<le> lw" using p0 lw by simp
  have "0 \<le> of_int lw / (of_int (int w0) :: rat)" using lw0 by simp
  then have "0 \<le> round_double (of_int lw / of_int (int w0))" by (rule round_double_sign(1))
  then have "0 \<le> of_int (int h0) * round_double (of_int lw / of_int (int w0))" by simp
  then have "0 \<le> round_double (of_int (int h0) * round_double (of_int lw / of_int (int w0)))"
    by (rule round_double_sign(1))
  then have lh: "lh = \<lfloor>round_double (of_int (int h0) * round_double (of_int lw / of_int (int w0)))\<rfloor>"
    using D(3) by (simp add: py_int_nonneg)
  have w0: "0 < w0" using D(2) by simp
  from height_within_one_pixel[OF lw0 w0 w53 assms(14)] D(3)
  have "of_int (int h0) * of_int lw / of_int (int w0) - 1 \<le> (of_int lh :: rat)"
    "(of_int lh :: rat) \<le> of_int (int h0) * of_int lw / of_int (int w0)"
    by simp_all
  with lw lh show ?thesis by simp
qed

theorem resized_logo_size_truncates_witness:
  "(current_logo example_processor = Some 1 \<and> 1 < length example_heap \<and> 0 < length example_heap \<and>
    fst (apply_logo example_pil example_processor example_heap 0 no_kwargs) =
      Inr \<lparr>result_image = 2, logged_position = (70, 55), logged_size = (10, 5)\<rparr> \<and>
    default_logo_size = logo_size (update_settings (default_settings example_processor) no_kwargs) \<and>
    0 < default_logo_size \<and> default_logo_size \<le> 1 \<and>
    (100::nat) = fst (im_size (example_heap ! 0)) \<and> im_size (example_heap ! 1) = (4, 2) \<and>
    3 * int 2 * 10 < 2 ^ 53) \<and>
   ((10::int) = \<lfloor>round_double (of_int (int 100) * default_logo_size)\<rfloor> \<and>
    (5::int) = \<lfloor>round_double (of_int (int 2) * round_double (of_int (10::int) / of_int (int 4)))\<rfloor> \<and>
    of_int (int 2) * of_int (10::int) / of_int (int 4) - 1 \<le> (of_int (5::int) :: rat) \<and>
    (of_int (5::int) :: rat) \<le> of_int (int 2) * of_int (10::int) / of_int (int 4))"
proof -
  have s: "default_logo_size = logo_size (update_settings (default_settings example_processor) no_kwargs)"
    by (simp add: example_logo_sizes)
  have r: "0 < default_logo_size" "default_logo_size \<le> 1"
    by (simp_all add: default_values)
  have W: "(100::nat) = fst (im_size (example_heap ! 0))"
    by (simp add: example_sizes)
  have l: "logged_size \<lparr>result_image = 2, logged_position = (70, 55), logged_size = (10, 5)\<rparr> = (10, 5)"
    by simp
  have b: "int 100 < 2 ^ 31" "int 4 < 2 ^ 31" "int 2 < 2 ^ 31" "3 * int 2 * 10 < 2 ^ 53"
    by simp_all
  note T = resized_logo_size_truncates[OF example_refs example_default s r W example_sizes(3) l b]
  show ?thesis
    by (rule conjI) (intro conjI example_refs example_default s r W example_sizes(3) b(4), rule T)
qed

text \<open>
  The claim as stated fails for a logo of 3 x 1 on a base of width 10 at relative size
  0.5: the width is 5 and the height is 1, where rounding \<open>1 * (5 / 3)\<close> gives 2.
\<close>

theorem resized_logo_size_rounds_counterexample:
  "logo_dims 10 (3, 1) (1 / 2) = Inr (5, 1) \<and> round (1 * (5 / 3) :: rat) = 2"
proof -
  have 1: "round_double (of_int (int 10) * (1 / 2)) = 5" by code_simp
  have 2: "round_double (of_int (py_int 5) / of_int (int 3)) = 7505999378950827 / 4503599627370496"
    by code_simp
  have 3: "round_double (of_int (int 1) * (7505999378950827 / 4503599627370496)) =
           7505999378950827 / 4503599627370496"
    by code_simp
  have f: "\<lfloor>7505999378950827 / 4503599627370496 :: rat\<rfloor> = 1"
    by (simp add: floor_eq_iff)
  have d: "logo_dims 10 (3, 1) (1 / 2) = Inr (5, 1)"
    using logo_dimsI[OF _ _ _ 1 _ 2 _ 3] by (simp add: py_int_def f)
  have r: "round (1 * (5 / 3) :: rat) = 2"
    by (simp add: round_def floor_eq_iff)
  show ?thesis using d r by simp
qed

section \<open>The anchor placement (C3)\<close>

text \<open>
  Claim C3, as amended.  For every one of the nine anchors, with relative coordinates
  \<open>(relX, relY)\<close> among 0, 0.5 and 1, the placement before clamping is
  \<open>x = int((base_width - logo_width) * relX)\<close> and
  \<open>y = int((base_height - logo_height) * relY)\<close>, truncated towards zero and not rounded
  (for differences below \<open>2^53\<close> in absolute value, where the product is exact); then the
  margin is added when the relative coordinate is 0, subtracted when it is 1 and left out
  when it is 0.5.  A custom position is used as it is, without any anchor computation.
\<close>

theorem anchor_placement_truncates:
  assumes "map_of LOGO_POSITIONS pos = Some (rel_x, rel_y)"
    and "\<bar>int W - lw\<bar> < 2 ^ 53" "\<bar>int H - lh\<bar> < 2 ^ 53"
  shows "num_value rel_x \<in> {0, 1 / 2, 1} \<and> num_value rel_y \<in> {0, 1 / 2, 1} \<and>
         placement None pos m (W, H) (lw, lh) =
           Inr (py_int (of_int (int W - lw) * num_value rel_x) +
                  (if num_value rel_x = 0 then m else if num_value rel_x = 1 then - m else 0),
                py_int (of_int (int H - lh) * num_value rel_y) +
                  (if num_value rel_y = 0 then m else if num_value rel_y = 1 then - m else 0)) \<and>
         placement (Some xy) pos m (W, H) (lw, lh) = Inr xy"
proof -
  note V = LOGO_POSITIONS_values[OF assms(1)]
  have "num_value rel_x \<in> {0, 1 / 2, 1}" "num_value rel_y \<in> {0, 1 / 2, 1}"
    using V by (auto simp: num_value_def)
  moreover have "placement None pos m (W, H) (lw, lh) =
           Inr (py_int (of_int (int W - lw) * num_value rel_x) +
                  (if num_value rel_x = 0 then m else if num_value rel_x = 1 then - m else 0),
                py_int (of_int (int H - lh) * num_value rel_y) +
                  (if num_value rel_y = 0 then m else if num_value rel_y = 1 then - m else 0))"
    by (simp add: placement_def assms(1) anchor_coord_value[OF V(1) assms(2)]
        anchor_coord_value[OF V(2) assms(3)])
  moreover have "placement (Some xy) pos m (W, H) (lw, lh) = Inr xy"
    by (simp add: placement_def)
  ultimately show ?thesis by simp
qed

theorem anchor_placement_truncates_witness:
  "map_of LOGO_POSITIONS ''center'' = Some (PyFloat (1 / 2), PyFloat (1 / 2)) \<and>
   \<bar>int 6 - 3\<bar> < (2::int) ^ 53 \<and>
   placement None ''center'' 20 (6, 6) (3, 3) = Inr (1, 1) \<and>
   placement (Some (4, 5)) ''center'' 20 (6, 6) (3, 3) = Inr (4, 5)"
proof -
  have c: "map_of LOGO_POSITIONS ''center'' = Some (PyFloat (1 / 2), PyFloat (1 / 2))"
    by (simp add: LOGO_POSITIONS_def)
  have b: "\<bar>int 6 - 3\<bar> < (2::int) ^ 53" by simp
  show ?thesis
    using c b anchor_placement_truncates[OF c b b, of 20 "(4, 5)"]
    by (simp add: num_value_def py_int_def floor_three_halves)
qed

text \<open>
  The claim as stated fails for the anchor \<open>center\<close> on a base of 6 x 6 with a resized
  logo of 3 x 3 (a 1 x 1 logo at relative size 0.5): the placement is (1, 1), where
  rounding \<open>(6 - 3) * 0.5\<close> gives 2.
\<close>

theorem anchor_placement_rounds_counterexample:
  "logo_dims 6 (1, 1) (1 / 2) = Inr (3, 3) \<and>
   placement None ''center'' 20 (6, 6) (3, 3) = Inr (1, 1) \<and>
   round ((6 - 3) * (1 / 2) :: rat) = 2"
proof -
  have 1: "round_double (of_int (int 6) * (1 / 2)) = 3" by code_simp
  have 2: "round_double (of_int (py_int 3) / of_int (int 1)) = 3" by code_simp
  have 3: "round_double (of_int (int 1) * 3) = 3" by code_simp
  have d: "logo_dims 6 (1, 1) (1 / 2) = Inr (3, 3)"
    using logo_dimsI[OF _ _ _ 1 _ 2 _ 3] by (simp add: py_int_def)
  have c: "map_of LOGO_POSITIONS ''center'' = Some (PyFloat (1 / 2), PyFloat (1 / 2))"
    by (simp add: LOGO_POSITIONS_def)
  have h: "int_mul_float 3 (1 / 2) = Inr (3 / 2)"
    using int_mul_float_half[of 3] by simp
  have p: "placement None ''center'' 20 (6, 6) (3, 3) = Inr (1, 1)"
    by (simp add: placement_def c anchor_coord_def int_mul_num_def h int_of_num_def num_eq_int_def
        py_int_def floor_three_halves)
  have r: "round ((6 - 3) * (1 / 2) :: rat) = 2"
    by (simp add: round_def)
  show ?thesis using d p r by simp
qed

section \<open>The clamp of the final position (C4)\<close>

text \<open>
  Claim C4.  For every successful call, with an anchor or with a custom position, the
  final position is the clamp of the placement \<open>(x, y)\<close> computed before:
  \<open>max(0, min(x, base_width - logo_width))\<close> and \<open>max(0, min(y, base_height - logo_height))\<close>.
  So \<open>0 \<le> x \<le> max 0 (base_width - logo_width)\<close>, and the same for \<open>y\<close>: where the
  resized logo fits the base in a dimension the rectangle lies inside the base, and where
  the logo is larger than the base the position is forced to 0.  The logo is pasted at
  this very position.  And the call does not fail for a logo that does not fit: for a
  base image with sides below \<open>2^31\<close>, whenever the logo size has been computed and
  \<open>resize\<close> has produced the resized logo, the call succeeds with that logo size,
  whatever the size of the base.
\<close>

theorem final_position_clamped:
  assumes "current_logo self = Some logo" "logo < length h" "img < length h"
  shows "(fst (apply_logo L self h img kw) = Inr a \<longrightarrow>
          (\<exists>xy. placement (kw_custom_position kw)
                  (position (update_settings (default_settings self) kw))
                  (margin (update_settings (default_settings self) kw))
                  (im_size (h ! img)) (logged_size a) = Inr xy \<and>
                logged_position a =
                  (max 0 (min (fst xy) (int (fst (im_size (h ! img))) - fst (logged_size a))),
                   max 0 (min (snd xy) (int (snd (im_size (h ! img))) - snd (logged_size a))))) \<and>
          0 \<le> fst (logged_position a) \<and>
          fst (logged_position a) \<le> max 0 (int (fst (im_size (h ! img))) - fst (logged_size a)) \<and>
          0 \<le> snd (logged_position a) \<and>
          snd (logged_position a) \<le> max 0 (int (snd (im_size (h ! img))) - snd (logged_size a)) \<and>
          snd (apply_logo L self h img kw) ! result_image a =
            pasted_image L (h ! img)
              (opacity_logo L (resized_image L (h ! logo) (logged_size a))
                 (opacity (update_settings (default_settings self) kw)))
              (logged_position a)
              (im_mode (opacity_logo L (resized_image L (h ! logo) (logged_size a))
                 (opacity (update_settings (default_settings self) kw))) = RGBA)) \<and>
         (int (fst (im_size (h ! img))) < 2 ^ 31 \<and> int (snd (im_size (h ! img))) < 2 ^ 31 \<and>
          logo_dims (fst (im_size (h ! img))) (im_size (h ! logo))
            (logo_size (update_settings (default_settings self) kw)) = Inr dims \<and>
          resize_error L (h ! logo) dims = None \<longrightarrow>
          (\<exists>b. fst (apply_logo L self h img kw) = Inr b \<and> logged_size b = dims))"
proof -
  let ?st = "update_settings (default_settings self) kw"
  have first: "(\<exists>xy. placement (kw_custom_position kw) (position ?st) (margin ?st)
                  (im_size (h ! img)) (logged_size a) = Inr xy \<and>
                logged_position a =
                  (max 0 (min (fst xy) (int (fst (im_size (h ! img))) - fst (logged_size a))),
                   max 0 (min (snd xy) (int (snd (im_size (h ! img))) - snd (logged_size a))))) \<and>
          0 \<le> fst (logged_position a) \<and>
          fst (logged_position a) \<le> max 0 (int (fst (im_size (h ! img))) - fst (logged_size a)) \<and>
          0 \<le> snd (logged_position a) \<and>
          snd (logged_position a) \<le> max 0 (int (snd (im_size (h ! img))) - snd (logged_size a)) \<and>
          snd (apply_logo L self h img kw) ! result_image a =
            pasted_image L (h ! img)
              (opacity_logo L (resized_image L (h ! logo) (logged_size a)) (opacity ?st))
              (logged_position a)
              (im_mode (opacity_logo L (resized_image L (h ! logo) (logged_size a)) (opacity ?st)) = RGBA)"
    if a: "fst (apply_logo L self h img kw) = Inr a"
  proof -
    note S = apply_logo_success[OF assms a]
    from S(4) obtain xy where
      p: "placement (kw_custom_position kw) (position ?st) (margin ?st)
            (im_size (h ! img)) (logged_size a) = Inr xy"
      and c: "logged_position a = clamp_position xy (im_size (h ! img)) (logged_size a)"
      by blast
    have e: "logged_position a =
                  (max 0 (min (fst xy) (int (fst (im_size (h ! img))) - fst (logged_size a))),
                   max 0 (min (snd xy) (int (snd (im_size (h ! img))) - snd (logged_size a))))"
      using c by (simp add: clamp_position_def)
    have b: "0 \<le> fst (logged_position a)"
      "fst (logged_position a) \<le> max 0 (int (fst (im_size (h ! img))) - fst (logged_size a))"
      "0 \<le> snd (logged_position a)"
      "snd (logged_position a) \<le> max 0 (int (snd (im_size (h ! img))) - snd (logged_size a))"
      unfolding e by simp_all
    have i: "snd (apply_logo L self h img kw) ! result_image a =
            pasted_image L (h ! img)
              (opacity_logo L (resized_image L (h ! logo) (logged_size a)) (opacity ?st))
              (logged_position a)
              (im_mode (opacity_logo L (resized_image L (h ! logo) (logged_size a)) (opacity ?st)) = RGBA)"
      using S(5) by (simp add: S(1) composited_def Let_def)
    show ?thesis using p e b i by blast
  qed
  have second: "\<exists>b. fst (apply_logo L self h img kw) = Inr b \<and> logged_size b = dims"
    if s: "int (fst (im_size (h ! img))) < 2 ^ 31" "int (snd (im_size (h ! img))) < 2 ^ 31"
      and d: "logo_dims (fst (im_size (h ! img))) (im_size (h ! logo)) (logo_size ?st) = Inr dims"
      and r: "resize_error L (h ! logo) dims = None"
  proof -
    have "- (2 ^ 31) \<le> fst dims \<and> fst dims < 2 ^ 31 \<and> - (2 ^ 31) \<le> snd dims \<and> snd dims < 2 ^ 31"
      using r by (cases dims) (auto simp: resize_error_def split: if_splits)
    then have "\<bar>int (fst (im_size (h ! img))) - fst dims\<bar> < 2 ^ 53"
      "\<bar>int (snd (im_size (h ! img))) - snd dims\<bar> < 2 ^ 53"
      using s by (simp_all add: abs_less_iff)
    from placement_total[OF this] obtain xy where
      "placement (kw_custom_position kw) (position ?st) (margin ?st) (im_size (h ! img)) dims = Inr xy"
      by blast
    then show ?thesis
      unfolding apply_logo_fst_cases[OF assms] by (simp add: d r)
  qed
  show ?thesis using first second by blast
qed

theorem final_position_clamped_witness:
  "current_logo example_processor = Some 1 \<and> 1 < length example_heap \<and> 0 < length example_heap \<and>
   fst (apply_logo example_pil example_processor example_heap 0 custom_kwargs) =
     Inr \<lparr>result_image = 2, logged_position = (90, 75), logged_size = (10, 5)\<rparr> \<and>
   placement (kw_custom_position custom_kwargs)
     (position (update_settings (default_settings example_processor) custom_kwargs))
     (margin (update_settings (default_settings example_processor) custom_kwargs))
     (im_size (example_heap ! 0)) (10, 5) = Inr (95, 78) \<and>
   im_size (example_heap ! 0) = (100, 80) \<and>
   max 0 (min 95 (int 100 - 10)) = 90 \<and> max 0 (min 78 (int 80 - 5)) = 75 \<and>
   snd (apply_logo example_pil example_processor example_heap 0 custom_kwargs) ! 2 =
     pasted_image example_pil (example_heap ! 0)
       (opacity_logo example_pil (resized_image example_pil (example_heap ! 1) (10, 5))
          (opacity (update_settings (default_settings example_processor) custom_kwargs)))
       (90, 75)
       (im_mode (opacity_logo example_pil (resized_image example_pil (example_heap ! 1) (10, 5))
          (opacity (update_settings (default_settings example_processor) custom_kwargs))) = RGBA) \<and>
   fst (apply_logo example_pil example_processor example_heap 0 large_kwargs) =
     Inr \<lparr>result_image = 2, logged_position = (0, 0), logged_size = (120, 60)\<rparr> \<and>
   placement (kw_custom_position large_kwargs)
     (position (update_settings (default_settings example_processor) large_kwargs))
     (margin (update_settings (default_settings example_processor) large_kwargs))
     (im_size (example_heap ! 0)) (120, 60) = Inr (- 40, 0) \<and>
   max 0 (min (- 40) (int 100 - 120)) = 0 \<and> max 0 (min 0 (int 80 - 60)) = 0 \<and>
   int (fst (im_size (example_heap ! 0))) < 2 ^ 31 \<and> int (snd (im_size (example_heap ! 0))) < 2 ^ 31 \<and>
   logo_dims (fst (im_size (example_heap ! 0))) (im_size (example_heap ! 1))
     (logo_size (update_settings (default_settings example_processor) large_kwargs)) = Inr (120, 60) \<and>
   resize_error example_pil (example_heap ! 1) (120, 60) = None \<and>
   (\<exists>b. fst (apply_logo example_pil example_processor example_heap 0 large_kwargs) = Inr b \<and>
        logged_size b = (120, 60))"
proof -
  note T1 = final_position_clamped[OF example_refs, of example_pil custom_kwargs
      "\<lparr>result_image = 2, logged_position = (90, 75), logged_size = (10, 5)\<rparr>" "(120, 60)",
      THEN conjunct1, rule_format, OF example_custom]
  note T2 = final_position_clamped[OF example_refs, of example_pil large_kwargs
      "\<lparr>result_image = 2, logged_position = (0, 0), logged_size = (120, 60)\<rparr>" "(120, 60)"]
  have sz: "im_size (example_heap ! 0) = (100, 80)"
    by (simp add: example_heap_def example_base_def)
  have b: "int (fst (im_size (example_heap ! 0))) < 2 ^ 31" "int (snd (im_size (example_heap ! 0))) < 2 ^ 31"
    by (simp_all add: example_sizes)
  have r: "resize_error example_pil (example_heap ! 1) (120, 60) = None"
    by (simp add: resize_error_def example_pil_def)
  have pc: "placement (kw_custom_position custom_kwargs)
     (position (update_settings (default_settings example_processor) custom_kwargs))
     (margin (update_settings (default_settings example_processor) custom_kwargs))
     (im_size (example_heap ! 0)) (10, 5) = Inr (95, 78)"
    by (simp add: placement_def custom_kwargs_def no_kwargs_def)
  have pl': "placement (kw_custom_position large_kwargs)
       (position (update_settings (default_settings example_processor) large_kwargs))
       (margin (update_settings (default_settings example_processor) large_kwargs))
       (im_size (example_heap ! 0)) (120, 60) = Inr (- 40, 0)"
    by (simp add: update_settings_def large_kwargs_def no_kwargs_def example_processor_def init_def
        default_position_def logo_margin_def placement_bottom_right sz)
  have i: "snd (apply_logo example_pil example_processor example_heap 0 custom_kwargs) ! 2 =
     pasted_image example_pil (example_heap ! 0)
       (opacity_logo example_pil (resized_image example_pil (example_heap ! 1) (10, 5))
          (opacity (update_settings (default_settings example_processor) custom_kwargs)))
       (90, 75)
       (im_mode (opacity_logo example_pil (resized_image example_pil (example_heap ! 1) (10, 5))
          (opacity (update_settings (default_settings example_processor) custom_kwargs))) = RGBA)"
    using T1 by simp
  have s: "\<exists>b. fst (apply_logo example_pil example_processor example_heap 0 large_kwargs) = Inr b \<and>
        logged_size b = (120, 60)"
    using T2[THEN conjunct2] b example_large_dims r by blast
  have m: "max 0 (min 95 (int 100 - 10)) = 90" "max 0 (min 78 (int 80 - 5)) = 75"
    "max 0 (min (- 40) (int 100 - 120)) = 0" "max 0 (min 0 (int 80 - 60)) = 0"
    by simp_all
  show ?thesis
    by (intro conjI example_refs example_custom pc sz m i example_large pl' b example_large_dims r s)
qed

section \<open>Failure without a logo (C5)\<close>

text \<open>
  Claim C5.  For every base image and every placement configuration, if no logo has been
  supplied, \<open>apply_logo\<close> fails with the error for a missing logo and returns no
  composited image, instead of performing any compositing: the heap is left as it was,
  not even the copy of the base image is made.
\<close>

theorem apply_logo_without_logo:
  "current_logo self = None \<Longrightarrow> apply_logo L self h img kw = (Inl LogoNotLoaded, h)"
  by (simp add: apply_logo_def)

theorem apply_logo_without_logo_witness:
  "current_logo init = None \<and>
   apply_logo example_pil init example_heap 0 no_kwargs = (Inl LogoNotLoaded, example_heap)"
proof -
  have h: "current_logo init = None" by (simp add: init_def)
  show ?thesis using h apply_logo_without_logo[OF h] by simp
qed

section \<open>Opacity (C6)\<close>

text \<open>
  Claim C6.  For every successful composite, the image pasted onto the base is the
  resized logo itself when the opacity is not below 1.0, and otherwise the resized logo,
  converted to RGBA first if the logo has no alpha band, with its alpha band enhanced by
  the opacity.  At opacity 1.0 the whole call does not depend on the enhancement
  function, so no alpha scaling is applied; and for a logo without alpha band the pixels
  under the logo rectangle are the pixels of the resized logo, byte for byte: the logo
  is composited fully opaque.
\<close>

theorem opacity_scales_alpha_only_below_one:
  assumes "current_logo self = Some logo" "logo < length h" "img < length h"
    and "fst (apply_logo L self h img kw) = Inr a"
  shows "snd (apply_logo L self h img kw) ! result_image a =
           pasted_image L (h ! img)
             (if opacity (update_settings (default_settings self) kw) < 1
              then alpha_enhanced L
                     (if im_mode (h ! logo) \<noteq> RGBA
                      then converted_image (resized_image L (h ! logo) (logged_size a)) RGBA
                      else resized_image L (h ! logo) (logged_size a))
                     (opacity (update_settings (default_settings self) kw))
              else resized_image L (h ! logo) (logged_size a))
             (logged_position a)
             (opacity (update_settings (default_settings self) kw) < 1 \<or> im_mode (h ! logo) = RGBA) \<and>
         apply_logo (L\<lparr>enhance := e\<rparr>) self h img (kw\<lparr>kw_opacity := Some 1\<rparr>) =
           apply_logo L self h img (kw\<lparr>kw_opacity := Some 1\<rparr>) \<and>
         (\<not> opacity (update_settings (default_settings self) kw) < 1 \<and> im_mode (h ! logo) = RGB \<and>
          in_box (logged_position a) (nat (fst (logged_size a)), nat (snd (logged_size a))) i j \<and>
          i < fst (im_size (h ! img)) \<and> j < snd (im_size (h ! img)) \<longrightarrow>
          im_data (snd (apply_logo L self h img kw) ! result_image a) i j =
            pixel_to RGB (im_mode (h ! img))
              (resample L (h ! logo) (nat (fst (logged_size a)), nat (snd (logged_size a)))
                 (nat (int i - fst (logged_position a))) (nat (int j - snd (logged_position a)))))"
proof -
  let ?op = "opacity (update_settings (default_settings self) kw)"
  let ?R = "resized_image L (h ! logo) (logged_size a)"
  note S = apply_logo_success[OF assms]
  have m: "(im_mode (opacity_logo L ?R ?op) = RGBA) = (?op < 1 \<or> im_mode (h ! logo) = RGBA)"
    by (simp add: opacity_logo_def alpha_enhanced_def converted_image_def resized_image_def)
  have r: "snd (apply_logo L self h img kw) ! result_image a =
           pasted_image L (h ! img) (opacity_logo L ?R ?op) (logged_position a)
             (?op < 1 \<or> im_mode (h ! logo) = RGBA)"
    using S(5) by (simp add: S(1) composited_def Let_def m)
  have o: "opacity_logo L ?R ?op =
       (if ?op < 1
        then alpha_enhanced L (if im_mode (h ! logo) \<noteq> RGBA then converted_image ?R RGBA else ?R) ?op
        else ?R)"
    by (simp add: opacity_logo_def resized_image_def)
  have 1: "snd (apply_logo L self h img kw) ! result_image a =
           pasted_image L (h ! img)
             (if ?op < 1
              then alpha_enhanced L (if im_mode (h ! logo) \<noteq> RGBA then converted_image ?R RGBA else ?R) ?op
              else ?R)
             (logged_position a) (?op < 1 \<or> im_mode (h ! logo) = RGBA)"
    using r unfolding o .
  have 2: "apply_logo (L\<lparr>enhance := e\<rparr>) self h img (kw\<lparr>kw_opacity := Some 1\<rparr>) =
           apply_logo L self h img (kw\<lparr>kw_opacity := Some 1\<rparr>)"
    by (rule apply_logo_ignores_enhance) (simp add: update_settings_def)
  have 3: "im_data (snd (apply_logo L self h img kw) ! result_image a) i j =
            pixel_to RGB (im_mode (h ! img))
              (resample L (h ! logo) (nat (fst (logged_size a)), nat (snd (logged_size a)))
                 (nat (int i - fst (logged_position a))) (nat (int j - snd (logged_position a))))"
    if "\<not> ?op < 1" "im_mode (h ! logo) = RGB"
      "in_box (logged_position a) (nat (fst (logged_size a)), nat (snd (logged_size a))) i j"
      "i < fst (im_size (h ! img))" "j < snd (im_size (h ! img))"
    using that unfolding 1
    by (simp add: pasted_image_def resized_image_def paste_pixel_def)
  show ?thesis
    using 1 2 3 by blast
qed

theorem opacity_scales_alpha_only_below_one_witness:
  "current_logo example_processor = Some 1 \<and> 1 < length example_heap \<and> 0 < length example_heap \<and>
   fst (apply_logo example_pil example_processor example_heap 0 opaque_kwargs) =
     Inr \<lparr>result_image = 2, logged_position = (70, 55), logged_size = (10, 5)\<rparr> \<and>
   snd (apply_logo example_pil example_processor example_heap 0 opaque_kwargs) ! 2 =
     pasted_image example_pil (example_heap ! 0)
       (resized_image example_pil (example_heap ! 1) (10, 5)) (70, 55) False \<and>
   apply_logo (example_pil\<lparr>enhance := (\<lambda>f b. 0)\<rparr>) example_processor example_heap 0
       (no_kwargs\<lparr>kw_opacity := Some 1\<rparr>) =
     apply_logo example_pil example_processor example_heap 0 (no_kwargs\<lparr>kw_opacity := Some 1\<rparr>) \<and>
   in_box (70, 55) (10, 5) 75 57 \<and>
   im_data (snd (apply_logo example_pil example_processor example_heap 0 opaque_kwargs) ! 2) 75 57 =
     [200, 201, 202] \<and>
   fst (apply_logo example_pil example_processor example_heap 0 no_kwargs) =
     Inr \<lparr>result_image = 2, logged_position = (70, 55), logged_size = (10, 5)\<rparr> \<and>
   snd (apply_logo example_pil example_processor example_heap 0 no_kwargs) ! 2 =
     pasted_image example_pil (example_heap ! 0)
       (alpha_enhanced example_pil
          (converted_image (resized_image example_pil (example_heap ! 1) (10, 5)) RGBA)
          default_opacity)
       (70, 55) True"
proof -
  note T1 = opacity_scales_alpha_only_below_one[OF example_refs example_opaque,
      of "\<lambda>f b. 0" 75 57, unfolded example_opacities]
  note T2 = opacity_scales_alpha_only_below_one[OF example_refs example_default,
      of "\<lambda>f b. 0" 75 57, unfolded example_opacities]
  have m: "im_mode (example_heap ! Suc 0) = RGB" "im_mode (example_heap ! 0) = RGB"
    "im_size (example_heap ! 0) = (100, 80)"
    by (simp_all add: example_heap_def example_logo_def example_base_def)
  have b: "in_box (70, 55) (10, 5) 75 57" by (simp add: in_box_def)
  have p: "resample example_pil (example_heap ! Suc 0) (10, 5) 5 2 = [200, 201, 202]"
    by (simp add: example_pil_def example_heap_def example_logo_def)
  have 1: "snd (apply_logo example_pil example_processor example_heap 0 opaque_kwargs) ! 2 =
     pasted_image example_pil (example_heap ! 0)
       (resized_image example_pil (example_heap ! 1) (10, 5)) (70, 55) False"
    using T1[THEN conjunct1] by (simp add: m)
  have 2: "apply_logo (example_pil\<lparr>enhance := (\<lambda>f b. 0)\<rparr>) example_processor example_heap 0
       (no_kwargs\<lparr>kw_opacity := Some 1\<rparr>) =
     apply_logo example_pil example_processor example_heap 0 (no_kwargs\<lparr>kw_opacity := Some 1\<rparr>)"
    using T2[THEN conjunct2, THEN conjunct1] by simp
  have 3: "im_data (snd (apply_logo example_pil example_processor example_heap 0 opaque_kwargs) ! 2) 75 57 =
     [200, 201, 202]"
    using T1[THEN conjunct2, THEN conjunct2] b by (simp add: m p pixel_to_def)
  have 4: "snd (apply_logo example_pil example_processor example_heap 0 no_kwargs) ! 2 =
     pasted_image example_pil (example_heap ! 0)
       (alpha_enhanced example_pil
          (converted_image (resized_image example_pil (example_heap ! 1) (10, 5)) RGBA)
          default_opacity)
       (70, 55) True"
    using T2[THEN conjunct1] by (simp add: m example_opacities)
  show ?thesis
    using example_refs example_opaque example_default 1 2 b 3 4 by simp
qed

section \<open>Unknown position names (C7)\<close>

text \<open>
  Claim C7.  For every position name that is not one of the nine enumerated anchors,
  \<open>apply_logo\<close> does not fail on that account: it behaves exactly as if
  \<open>bottom_right\<close> had been requested, with the same result and the same heap.
\<close>

theorem unknown_position_falls_back:
  assumes "pos \<notin> {''top_left'', ''top_center'', ''top_right'', ''center_left'', ''center'',
                    ''center_right'', ''bottom_left'', ''bottom_center'', ''bottom_right''}"
  shows "apply_logo L self h img (kw\<lparr>kw_position := Some pos\<rparr>) =
         apply_logo L self h img (kw\<lparr>kw_position := Some ''bottom_right''\<rparr>)"
proof -
  from assms have "map_of LOGO_POSITIONS pos = None"
    by (simp add: LOGO_POSITIONS_def)
  then have pl: "placement c pos m a b = placement c ''bottom_right'' m a b" for c m a b
    by (rule placement_unknown)
  show ?thesis
    by (simp add: apply_logo_def update_settings_def pl Let_def
        split: option.split sum.split prod.split)
qed

theorem unknown_position_falls_back_witness:
  "''middle'' \<notin> {''top_left'', ''top_center'', ''top_right'', ''center_left'', ''center'',
                   ''center_right'', ''bottom_left'', ''bottom_center'', ''bottom_right''} \<and>
   apply_logo example_pil example_processor example_heap 0 (no_kwargs\<lparr>kw_position := Some ''middle''\<rparr>) =
   apply_logo example_pil example_processor example_heap 0 (no_kwargs\<lparr>kw_position := Some ''bottom_right''\<rparr>) \<and>
   fst (apply_logo example_pil example_processor example_heap 0 (no_kwargs\<lparr>kw_position := Some ''middle''\<rparr>)) =
     Inr \<lparr>result_image = 2, logged_position = (70, 55), logged_size = (10, 5)\<rparr>"
proof -
  have n: "''middle'' \<notin> {''top_left'', ''top_center'', ''top_right'', ''center_left'', ''center'',
                   ''center_right'', ''bottom_left'', ''bottom_center'', ''bottom_right''}"
    by simp
  have e: "fst (apply_logo example_pil example_processor example_heap 0
                 (no_kwargs\<lparr>kw_position := Some ''bottom_right''\<rparr>)) =
           Inr \<lparr>result_image = 2, logged_position = (70, 55), logged_size = (10, 5)\<rparr>"
    by (rule example_run) (simp_all add: no_kwargs_def)
  show ?thesis
    using n e unknown_position_falls_back[OF n, of example_pil example_processor example_heap 0 no_kwargs]
    by simp
qed

section \<open>Size of the result and the pixels outside the logo (C8)\<close>

text \<open>
  Claim C8.  For every successful composite, the output is a new image object (none of
  the objects that existed before the call), with exactly the size and the mode of the
  base image, and every pixel outside the clamped logo rectangle equals the pixel of the
  base image at the same place.
\<close>

theorem result_is_new_image_with_base_outside_logo:
  assumes "current_logo self = Some logo" "logo < length h" "img < length h"
    and "fst (apply_logo L self h img kw) = Inr a"
  shows "\<not> result_image a < length h \<and>
         im_size (snd (apply_logo L self h img kw) ! result_image a) = im_size (h ! img) \<and>
         im_mode (snd (apply_logo L self h img kw) ! result_image a) = im_mode (h ! img) \<and>
         (\<forall>i j. \<not> in_box (logged_position a) (nat (fst (logged_size a)), nat (snd (logged_size a))) i j \<longrightarrow>
            im_data (snd (apply_logo L self h img kw) ! result_image a) i j = im_data (h ! img) i j)"
proof -
  note S = apply_logo_success[OF assms]
  have r: "snd (apply_logo L self h img kw) ! result_image a =
           composited L (h ! img) (h ! logo) (opacity (update_settings (default_settings self) kw))
             (logged_position a) (logged_size a)"
    using S(5) by (simp add: S(1))
  show ?thesis
    unfolding r
    by (simp add: S(1) composited_def Let_def pasted_image_def opacity_logo_size resized_image_def)
qed

theorem result_is_new_image_with_base_outside_logo_witness:
  "current_logo example_processor = Some 1 \<and> 1 < length example_heap \<and> 0 < length example_heap \<and>
   fst (apply_logo example_pil example_processor example_heap 0 no_kwargs) =
     Inr \<lparr>result_image = 2, logged_position = (70, 55), logged_size = (10, 5)\<rparr> \<and>
   length example_heap = 2 \<and>
   im_size (snd (apply_logo example_pil example_processor example_heap 0 no_kwargs) ! 2) = (100, 80) \<and>
   im_mode (snd (apply_logo example_pil example_processor example_heap 0 no_kwargs) ! 2) = RGB \<and>
   \<not> in_box (70, 55) (10, 5) 3 4 \<and>
   im_data (snd (apply_logo example_pil example_processor example_heap 0 no_kwargs) ! 2) 3 4 = [3, 4, 7]"
proof -
  note T = result_is_new_image_with_base_outside_logo[OF example_refs example_default]
  have n: "\<not> in_box (70, 55) (10, 5) 3 4" by (simp add: in_box_def)
  from T have "im_data (snd (apply_logo example_pil example_processor example_heap 0 no_kwargs) ! 2) 3 4 =
        im_data (example_heap ! 0) 3 4"
    using n by simp
  then show ?thesis
    using T example_refs example_default n
    by (simp add: example_heap_def example_base_def)
qed

section \<open>Defaults of omitted parameters (C9)\<close>

text \<open>
  Claim C9.  When a placement parameter is omitted from an \<open>apply_logo\<close> call of a
  processor whose default settings are those of \<open>__init__\<close>, it is filled from the
  built-in defaults: position \<open>bottom_right\<close>, relative size 0.1, opacity 0.8, margin 20
  pixels (0.1 and 0.8 being the doubles that these literals denote).  The call equals the
  call with every parameter written out, and the default opacity is below 1.0, so by
  default the logo is composited at 80% opacity, not fully opaque.
\<close>

theorem omitted_parameters_take_defaults:
  assumes "default_settings self = default_settings init"
  shows "apply_logo L self h img kw =
         apply_logo L self h img
           \<lparr>kw_position = Some (case kw_position kw of None \<Rightarrow> ''bottom_right'' | Some v \<Rightarrow> v),
            kw_size = Some (case kw_size kw of None \<Rightarrow> 3602879701896397 / 36028797018963968 | Some v \<Rightarrow> v),
            kw_opacity = Some (case kw_opacity kw of None \<Rightarrow> 3602879701896397 / 4503599627370496 | Some v \<Rightarrow> v),
            kw_margin = Some (case kw_margin kw of None \<Rightarrow> 20 | Some v \<Rightarrow> v),
            kw_custom_position = kw_custom_position kw\<rparr>
       \<and> opacity (update_settings (default_settings self) (kw\<lparr>kw_opacity := None\<rparr>)) < 1"
proof -
  have "update_settings (default_settings self) kw =
        update_settings (default_settings self)
           \<lparr>kw_position = Some (case kw_position kw of None \<Rightarrow> ''bottom_right'' | Some v \<Rightarrow> v),
            kw_size = Some (case kw_size kw of None \<Rightarrow> 3602879701896397 / 36028797018963968 | Some v \<Rightarrow> v),
            kw_opacity = Some (case kw_opacity kw of None \<Rightarrow> 3602879701896397 / 4503599627370496 | Some v \<Rightarrow> v),
            kw_margin = Some (case kw_margin kw of None \<Rightarrow> 20 | Some v \<Rightarrow> v),
            kw_custom_position = kw_custom_position kw\<rparr>"
    by (simp add: update_settings_def assms init_def default_position_def default_values
        logo_margin_def split: option.split)
  moreover have "opacity (update_settings (default_settings self) (kw\<lparr>kw_opacity := None\<rparr>)) < 1"
    by (simp add: update_settings_def assms init_def default_values)
  ultimately show ?thesis
    using apply_logo_cong_settings[of self kw _ L h img] by simp
qed

theorem omitted_parameters_take_defaults_witness:
  "default_settings example_processor = default_settings init \<and>
   apply_logo example_pil example_processor example_heap 0 no_kwargs =
   apply_logo example_pil example_processor example_heap 0
     \<lparr>kw_position = Some ''bottom_right'', kw_size = Some (3602879701896397 / 36028797018963968),
      kw_opacity = Some (3602879701896397 / 4503599627370496), kw_margin = Some 20,
      kw_custom_position = None\<rparr> \<and>
   opacity (update_settings (default_settings example_processor) no_kwargs) < 1"
proof -
  have d: "default_settings example_processor = default_settings init"
    by (simp add: example_processor_def)
  show ?thesis
    using d omitted_parameters_take_defaults[OF d, of example_pil example_heap 0 no_kwargs]
    by (simp add: no_kwargs_def)
qed

section \<open>No effect on the arguments; repeated calls (C10)\<close>

text \<open>
  Claim C10.  \<open>apply_logo\<close> changes no image object that existed before the call, in
  particular neither its base-image argument nor the stored logo: compositing is done on
  a copy, and resizing and alpha scaling work on new objects.  (The processor itself is
  not assigned to in \<open>apply_logo\<close>, so the model does not return one.)  A second call
  with the same base image and the same settings has the same outcome, with the same
  logged position and size, and on success its result image equals the first one.
\<close>

theorem apply_logo_leaves_arguments_and_repeats:
  assumes "current_logo self = Some logo" "logo < length h" "img < length h"
  shows "(\<forall>r<length h. snd (apply_logo L self h img kw) ! r = h ! r) \<and>
         snd (apply_logo L self h img kw) ! img = h ! img \<and>
         snd (apply_logo L self h img kw) ! logo = h ! logo \<and>
         fst (apply_logo L self (snd (apply_logo L self h img kw)) img kw) =
           map_sum id (\<lambda>a. a\<lparr>result_image := length (snd (apply_logo L self h img kw))\<rparr>)
             (fst (apply_logo L self h img kw)) \<and>
         (\<forall>a. fst (apply_logo L self h img kw) = Inr a \<longrightarrow>
            snd (apply_logo L self (snd (apply_logo L self h img kw)) img kw)
              ! length (snd (apply_logo L self h img kw)) =
            snd (apply_logo L self h img kw) ! result_image a)"
proof -
  let ?h' = "snd (apply_logo L self h img kw)"
  note F = apply_logo_frame[OF assms, of L kw]
  have i: "?h' ! img = h ! img" and l: "?h' ! logo = h ! logo"
    using F(2) assms by simp_all
  have vi: "img < length ?h'" and vl: "logo < length ?h'"
    using F(1) assms by simp_all
  have second: "fst (apply_logo L self ?h' img kw) =
      map_sum id (\<lambda>a. a\<lparr>result_image := length ?h'\<rparr>) (fst (apply_logo L self h img kw))"
    by (rule apply_logo_fst_heap[OF assms vl vi i l])
  have same: "snd (apply_logo L self ?h' img kw) ! length ?h' = ?h' ! result_image a"
    if a: "fst (apply_logo L self h img kw) = Inr a" for a
  proof -
    let ?a' = "a\<lparr>result_image := length ?h'\<rparr>"
    have a': "fst (apply_logo L self ?h' img kw) = Inr ?a'"
      by (simp add: second a)
    note S = apply_logo_success[OF assms a]
    note S' = apply_logo_success[OF assms(1) vl vi a']
    show ?thesis
      using S'(5) S(5) by (simp add: S(1) i l)
  qed
  show ?thesis
    using F(2) i l second same by blast
qed

theorem apply_logo_leaves_arguments_and_repeats_witness:
  "current_logo example_processor = Some 1 \<and> 1 < length example_heap \<and> 0 < length example_heap \<and>
   snd (apply_logo example_pil example_processor example_heap 0 no_kwargs) ! 0 = example_heap ! 0 \<and>
   snd (apply_logo example_pil example_processor example_heap 0 no_kwargs) ! 1 = example_heap ! 1 \<and>
   fst (apply_logo example_pil example_processor example_heap 0 no_kwargs) =
     Inr \<lparr>result_image = 2, logged_position = (70, 55), logged_size = (10, 5)\<rparr> \<and>
   fst (apply_logo example_pil example_processor
          (snd (apply_logo example_pil example_processor example_heap 0 no_kwargs)) 0 no_kwargs) =
     Inr \<lparr>result_image = length (snd (apply_logo example_pil example_processor example_heap 0 no_kwargs)),
          logged_position = (70, 55), logged_size = (10, 5)\<rparr> \<and>
   snd (apply_logo example_pil example_processor
          (snd (apply_logo example_pil example_processor example_heap 0 no_kwargs)) 0 no_kwargs)
     ! length (snd (apply_logo example_pil example_processor example_heap 0 no_kwargs)) =
   snd (apply_logo example_pil example_processor example_heap 0 no_kwargs) ! 2"
  using apply_logo_leaves_arguments_and_repeats[OF example_refs, of example_pil no_kwargs]
    example_refs example_default
  by simp

end
